theory Spec2Isabelle
  imports Complex_Main "HOL-Library.Word"
begin

section \<open>Go strings and the library functions the identity code calls\<close>

text \<open>
  A Go string is a sequence of bytes, so it is a \<open>string\<close> (a list of 8-bit \<open>char\<close>).
  \<open>strings.ToLower\<close> and \<open>strings.ToUpper\<close> map the bytes \<open>A\<close>..\<open>Z\<close> (\<open>a\<close>..\<open>z\<close>) when
  every byte of the argument is below \<open>0x80\<close>; a string holding a byte from \<open>0x80\<close> on goes
  through the Unicode tables of the standard library, which are not part of the
  repository: that path is the parameter \<open>uni\<close> of the two functions.
\<close>

definition isASCII :: "string \<Rightarrow> bool" where
  "isASCII s = list_all (\<lambda>c. (of_char c :: nat) < 128) s"

definition isUpperByte :: "char \<Rightarrow> bool" where
  "isUpperByte c = (65 \<le> (of_char c :: nat) \<and> (of_char c :: nat) \<le> 90)"

definition isLowerByte :: "char \<Rightarrow> bool" where
  "isLowerByte c = (97 \<le> (of_char c :: nat) \<and> (of_char c :: nat) \<le> 122)"

definition lowerByte :: "char \<Rightarrow> char" where
  "lowerByte c = (if isUpperByte c then char_of ((of_char c :: nat) + 32) else c)"

definition upperByte :: "char \<Rightarrow> char" where
  "upperByte c = (if isLowerByte c then char_of ((of_char c :: nat) - 32) else c)"

definition ToLower :: "(string \<Rightarrow> string) \<Rightarrow> string \<Rightarrow> string" where
  "ToLower uni s = (if isASCII s then map lowerByte s else uni s)"

definition ToUpper :: "(string \<Rightarrow> string) \<Rightarrow> string \<Rightarrow> string" where
  "ToUpper uni s = (if isASCII s then map upperByte s else uni s)"

text \<open>
  \<open>strings.Split(s, sep)\<close> for a separator of one byte: the pieces between the
  occurrences of \<open>sep\<close>, one more piece than there are occurrences (so never no piece).
\<close>

fun Split :: "string \<Rightarrow> char \<Rightarrow> string list" where
  "Split [] sep = [[]]"
| "Split (c # cs) sep =
     (if c = sep then [] # Split cs sep
      else (case Split cs sep of [] \<Rightarrow> [[c]] | p # ps \<Rightarrow> (c # p) # ps))"

text \<open>
  \<open>strings.Replace(s, old, new, -1)\<close> for an \<open>old\<close> of one byte: every occurrence of the
  byte is replaced by the string \<open>new\<close>.
\<close>

definition Replace :: "string \<Rightarrow> char \<Rightarrow> string \<Rightarrow> string" where
  "Replace s old new = concat (map (\<lambda>c. if c = old then new else [c]) s)"

definition HasPrefix :: "string \<Rightarrow> string \<Rightarrow> bool" where
  "HasPrefix s p = (length p \<le> length s \<and> take (length p) s = p)"

definition TrimPrefix :: "string \<Rightarrow> string \<Rightarrow> string" where
  "TrimPrefix s p = (if HasPrefix s p then drop (length p) s else s)"

text \<open>Decimal digits of a natural number, as the \<open>%d\<close> and \<open>%.0f\<close> verbs print them.\<close>

fun decimal :: "nat \<Rightarrow> string" where
  "decimal n =
     (if n < 10 then [char_of (48 + n)]
      else decimal (n div 10) @ [char_of (48 + n mod 10)])"

declare decimal.simps [simp del]

subsection \<open>The float64 arithmetic of the display name\<close>

text \<open>
  \<open>float64(device.Memory)\<close> converts a uint64 to the nearest float64 (53 significant
  bits, ties to the even significand); the result is an integer again. Dividing by
  \<open>1024 * 1024 * 1024\<close>, a power of two, is exact, so the quotient is kept as the pair
  of its numerator and denominator, and \<open>%.0f\<close> prints the integer nearest to the
  quotient, ties to even. Both roundings are written out on natural numbers.
\<close>

fun bitlen :: "nat \<Rightarrow> nat" where
  "bitlen n = (if n = 0 then 0 else Suc (bitlen (n div 2)))"

declare bitlen.simps [simp del]

definition roundHalfEven :: "nat \<Rightarrow> nat \<Rightarrow> nat" where
  "roundHalfEven x d =
     (let q = x div d; r = x mod d
      in if d < 2 * r \<or> (2 * r = d \<and> odd q) then q + 1 else q)"

definition float64_of_uint64 :: "nat \<Rightarrow> nat" where
  "float64_of_uint64 m = (let e = bitlen m - 53 in roundHalfEven m (2 ^ e) * 2 ^ e)"

definition Sprintf_f0 :: "nat \<times> nat \<Rightarrow> string" where
  "Sprintf_f0 x = decimal (roundHalfEven (fst x) (snd x))"

section \<open>Devices and their identity (package nvidia)\<close>

datatype Return = SUCCESS | ERROR_NOT_SUPPORTED | ERROR_OTHER nat

text \<open>
  The device handle is the capability of the hardware library: what each of its five
  queries answers when the device is sampled, a return code and the value read
  (power in milliwatts, the performance state, memory used and total in bytes, the two
  utilization rates, the temperature).
\<close>

record nvml_Device =
  GetPowerUsage :: "Return \<times> nat"
  GetPerformanceState :: "Return \<times> int"
  GetMemoryInfo :: "Return \<times> nat \<times> nat"
  GetUtilizationRates :: "Return \<times> nat \<times> nat"
  GetTemperature :: "Return \<times> nat"

record GPUDevice =
  Index :: int
  Handle :: nvml_Device
  Name :: string
  PCIBusID :: string
  Memory :: "64 word"
  UUID :: string

definition GetShortPCIBusID :: "string \<Rightarrow> string" where
  "GetShortPCIBusID pciBusID =
     (let parts = Split pciBusID CHR '':''
      in if 3 \<le> length parts then
           (let domain = parts ! 0;
                domain = (if 2 < length domain then drop (length domain - 2) domain
                          else domain)
            in domain @ '':'' @ parts ! 1 @ '':'' @ parts ! 2)
         else pciBusID)"

definition GetDeviceID :: "(string \<Rightarrow> string) \<Rightarrow> GPUDevice \<Rightarrow> string" where
  "GetDeviceID uni device =
     (let shortPCIBusID = GetShortPCIBusID (PCIBusID device);
          deviceID = Replace shortPCIBusID CHR '':'' ''_'';
          deviceID = Replace deviceID CHR ''.'' ''_'';
          uuidSuffix = Replace (UUID device) CHR ''-'' '''';
          uuidSuffix = (if 8 < length uuidSuffix then take 8 uuidSuffix else uuidSuffix)
      in ToLower uni (deviceID @ ''_'' @ uuidSuffix))"

definition GetDeviceDisplayName ::
  "(string \<Rightarrow> string) \<Rightarrow> GPUDevice \<Rightarrow> string \<Rightarrow> string" where
  "GetDeviceDisplayName uni device hostname =
     (let vramGB = (float64_of_uint64 (unat (Memory device)), 1024 * 1024 * 1024);
          modelName = Name device;
          modelName = (if HasPrefix (ToUpper uni modelName) ''NVIDIA ''
                       then TrimPrefix modelName ''NVIDIA '' else modelName);
          shortPCIBusID = GetShortPCIBusID (PCIBusID device)
      in hostname @ '' '' @ shortPCIBusID @ '' - NVIDIA '' @ modelName @ '' ''
           @ Sprintf_f0 vramGB @ ''GB'')"

section \<open>Sampling one device (package nvidia)\<close>

text \<open>
  A float64 is \<open>Finite\<close> with the exact value of the expression that computes it (the
  rounding to 53 bits is left out: nothing below depends on the digits of a reading),
  \<open>PosInf\<close> or \<open>NaN\<close>; the last two are what a division by a zero total gives.
\<close>

datatype float64 = Finite rat | PosInf | NaN

definition float64_div :: "nat \<Rightarrow> nat \<Rightarrow> float64" where
  "float64_div a b =
     (if b = 0 then (if a = 0 then NaN else PosInf) else Finite (of_nat a / of_nat b))"

definition float64_mul :: "float64 \<Rightarrow> rat \<Rightarrow> float64" where
  "float64_mul x k = (case x of Finite r \<Rightarrow> Finite (r * k) | PosInf \<Rightarrow> PosInf | NaN \<Rightarrow> NaN)"

record GPUMetrics =
  PowerDraw :: float64
  PerformanceLevel :: string
  MemoryUsage :: float64
  GPUUtilization :: int
  MemoryUtilization :: int
  Temperature :: int

definition zeroMetrics :: GPUMetrics where
  "zeroMetrics = \<lparr>PowerDraw = Finite 0, PerformanceLevel = '''', MemoryUsage = Finite 0,
     GPUUtilization = 0, MemoryUtilization = 0, Temperature = 0\<rparr>"

datatype error =
    PowerUsageError Return
  | PerformanceStateError Return
  | MemoryInfoError Return
  | UtilizationRatesError Return
  | TemperatureError Return
  | TimeoutError string
  | UnsupportedValueError
  | PublishConfigError
  | RegisterSensorError string error

definition decimal_int :: "int \<Rightarrow> string" where
  "decimal_int i = (if i < 0 then ''-'' @ decimal (nat (- i)) else decimal (nat i))"

text \<open>
  \<open>getGPUMetricsInternal\<close> returns the metrics filled in so far together with the error,
  as the Go function does; a query answered \<open>ERROR_NOT_SUPPORTED\<close> leaves its fields at
  the zero value and the function goes on.
\<close>

definition getGPUMetricsInternal :: "GPUDevice \<Rightarrow> GPUMetrics \<times> error option" where
  "getGPUMetricsInternal device =
     (let metrics = zeroMetrics;
          (ret, power) = GetPowerUsage (Handle device)
      in if ret \<noteq> SUCCESS \<and> ret \<noteq> ERROR_NOT_SUPPORTED
         then (metrics, Some (PowerUsageError ret))
         else
     (let metrics = (if ret = SUCCESS
                     then metrics\<lparr>PowerDraw := float64_div power 1000\<rparr> else metrics);
          (ret, perfState) = GetPerformanceState (Handle device)
      in if ret \<noteq> SUCCESS \<and> ret \<noteq> ERROR_NOT_SUPPORTED
         then (metrics, Some (PerformanceStateError ret))
         else
     (let metrics = (if ret = SUCCESS
                     then metrics\<lparr>PerformanceLevel := ''P'' @ decimal_int perfState\<rparr>
                     else metrics);
          (ret, used, total) = GetMemoryInfo (Handle device)
      in if ret \<noteq> SUCCESS
         then (metrics, Some (MemoryInfoError ret))
         else
     (let metrics = metrics\<lparr>MemoryUsage := float64_mul (float64_div used total) 100\<rparr>;
          (ret, gpu, mem) = GetUtilizationRates (Handle device)
      in if ret \<noteq> SUCCESS \<and> ret \<noteq> ERROR_NOT_SUPPORTED
         then (metrics, Some (UtilizationRatesError ret))
         else
     (let metrics = (if ret = SUCCESS
                     then metrics\<lparr>GPUUtilization := int gpu, MemoryUtilization := int mem\<rparr>
                     else metrics);
          (ret, temperature) = GetTemperature (Handle device)
      in if ret \<noteq> SUCCESS \<and> ret \<noteq> ERROR_NOT_SUPPORTED
         then (metrics, Some (TemperatureError ret))
         else
     (let metrics = (if ret = SUCCESS
                     then metrics\<lparr>Temperature := int temperature\<rparr> else metrics)
      in (metrics, None)))))))"

text \<open>
  \<open>GetGPUMetrics\<close> waits for the query or for ten seconds, whichever comes first;
  \<open>timedOut\<close> says that the timer won.
\<close>

definition GetGPUMetrics :: "bool \<Rightarrow> GPUDevice \<Rightarrow> GPUMetrics \<times> error option" where
  "GetGPUMetrics timedOut device =
     (if timedOut then (zeroMetrics, Some (TimeoutError (Name device)))
      else getGPUMetricsInternal device)"

section \<open>Configuration and the message bus\<close>

record Config =
  Hostname :: string
  MQTTHost :: string
  MQTTPort :: int
  MQTTUsername :: string
  MQTTPassword :: string
  MQTTLWTEnable :: bool
  MQTTRetain :: bool
  PollingPeriod :: int

record DeviceInfo =
  Identifiers :: "string list"
  InfoName :: string
  Model :: string
  Manufacturer :: string
  SwVersion :: string

record SensorConfig =
  SensorName :: string
  StateTopic :: string
  UniqueID :: string
  DeviceClass :: string
  UnitOfMeasurement :: string
  Icon :: string
  Device :: DeviceInfo
  AvailabilityTopic :: string
  PayloadAvailable :: string
  PayloadNotAvailable :: string
  ValueTemplate :: string
  StateClass :: string
  ForceUpdate :: bool

text \<open>
  The values \<open>publishMetrics\<close> hands to \<open>json.Marshal\<close> are a float64, a string or an
  int. The JSON text is not spelled out: a payload is the marshalled value, a discovery
  document, or a plain string. Marshalling fails on a float64 that is not finite and
  on nothing else that occurs here.
\<close>

datatype val = VFloat float64 | VString string | VInt int

datatype json = JNumber rat | JString string | JInteger int

datatype payload = StateJSON json | ConfigJSON SensorConfig | Text string

definition Marshal :: "val \<Rightarrow> error + json" where
  "Marshal v =
     (case v of
        VFloat (Finite r) \<Rightarrow> Inr (JNumber r)
      | VFloat _ \<Rightarrow> Inl UnsupportedValueError
      | VString s \<Rightarrow> Inr (JString s)
      | VInt i \<Rightarrow> Inr (JInteger i))"

record message =
  topic :: string
  qos :: nat
  retained :: bool
  body :: payload

text \<open>
  The bus client is the capability \<open>client\<close>: for a message handed to \<open>Publish\<close> it says
  whether the token completed within the wait and without an error.
\<close>

type_synonym client = "message \<Rightarrow> bool"

section \<open>Publishing the metrics of one device (package main)\<close>

datatype publish_result = MarshalFailed | Sent message bool

text \<open>
  Go ranges over the map \<open>sensors\<close> in an order it does not fix. The loop body neither
  leaves the loop nor reads what an earlier round did, so the model walks the entries in
  the order of the map literal and returns, for each, the topic and what became of it;
  the statements below do not depend on that order.
\<close>

definition publishMetrics ::
  "client \<Rightarrow> Config \<Rightarrow> (string \<Rightarrow> string) \<Rightarrow> GPUDevice \<Rightarrow> GPUMetrics
     \<Rightarrow> (string \<times> string \<times> publish_result) list" where
  "publishMetrics client cfg uni gpu metrics =
     (let sensors = [(''power_draw'', VFloat (PowerDraw metrics)),
                     (''performance_level'', VString (PerformanceLevel metrics)),
                     (''memory_usage'', VFloat (MemoryUsage metrics)),
                     (''gpu_utilization'', VInt (GPUUtilization metrics)),
                     (''temperature'', VInt (Temperature metrics))];
          deviceID = GetDeviceID uni gpu
      in map (\<lambda>(sensor, value).
                let topic = ''homeassistant/sensor/nvml-gpu/'' @ deviceID @ ''_'' @ sensor
                              @ ''/state''
                in (case Marshal value of
                      Inl err \<Rightarrow> (sensor, topic, MarshalFailed)
                    | Inr payload \<Rightarrow>
                        (let msg = \<lparr>topic = topic, qos = 1, retained = MQTTRetain cfg,
                                    body = StateJSON payload\<rparr>
                         in (sensor, topic, Sent msg (client msg)))))
             sensors)"

text \<open>
  The messages of such a list that were handed to \<open>Publish\<close>, acknowledged or not.
\<close>

definition published :: "(string \<times> string \<times> publish_result) list \<Rightarrow> message list" where
  "published rs = concat (map (\<lambda>(sensor, topic, r).
                     case r of MarshalFailed \<Rightarrow> [] | Sent msg ok \<Rightarrow> [msg]) rs)"

section \<open>Registering the sensors of one device (package homeassistant)\<close>

text \<open>
  An entry of the sensor table of \<open>RegisterGPUSensors\<close>: key, name, deviceClass, unit,
  icon, stateClass and template, in the order of the struct's fields.
\<close>

type_synonym sensor = "string \<times> string \<times> string \<times> string \<times> string \<times> string \<times> string"

text \<open>
  \<open>registerSensor\<close> hands exactly one message to \<open>Publish\<close>; the model returns that
  message with the error. Marshalling a \<open>SensorConfig\<close> (strings, a flag and the device
  record) cannot fail, so that branch of the source has no counterpart.
\<close>

definition registerSensor where
  "registerSensor (client :: client) (cfg :: Config) (deviceID :: string) (deviceName :: string)
       (sensorKey :: string) (sensorName :: string) (deviceClass :: string) (unit :: string)
       (icon :: string) (stateClass :: string) (template :: string) (deviceInfo :: DeviceInfo) =
     (let uniqueID = ''nvml_gpu_'' @ deviceID @ ''_'' @ sensorKey;
          stateTopic = ''homeassistant/sensor/nvml-gpu/'' @ deviceID @ ''_'' @ sensorKey
                         @ ''/state'';
          configTopic = ''homeassistant/sensor/nvml-gpu/'' @ deviceID @ ''_'' @ sensorKey
                          @ ''/config'';
          fullSensorName = sensorName;
          sensorConfig = \<lparr>SensorName = fullSensorName, StateTopic = stateTopic,
                           UniqueID = uniqueID, DeviceClass = deviceClass,
                           UnitOfMeasurement = unit, Icon = icon, Device = deviceInfo,
                           AvailabilityTopic = '''', PayloadAvailable = '''',
                           PayloadNotAvailable = '''', ValueTemplate = '''',
                           StateClass = stateClass, ForceUpdate = True\<rparr>;
          sensorConfig = (if template \<noteq> '''' then sensorConfig\<lparr>ValueTemplate := template\<rparr>
                          else sensorConfig);
          sensorConfig =
            (if MQTTLWTEnable cfg
             then sensorConfig\<lparr>AvailabilityTopic :=
                                  ''homeassistant/sensor/nvml-gpu-ha/availability'',
                                PayloadAvailable := ''online'',
                                PayloadNotAvailable := ''offline''\<rparr>
             else sensorConfig);
          msg = \<lparr>topic = configTopic, qos = 1, retained = MQTTRetain cfg,
                  body = ConfigJSON sensorConfig\<rparr>
      in if \<not> client msg then (msg, Some PublishConfigError)
         else (msg, None :: error option))"

definition sensors :: "sensor list" where
  "sensors =
     [(''power_draw'', ''Power Draw'', ''power'', ''W'',
       ''mdi:lightning-bolt'', ''measurement'', ''''),
      (''performance_level'', ''Performance Level'', '''', '''',
       ''mdi:speedometer'', '''', ''''),
      (''memory_usage'', ''VRAM Usage'', '''', ''%'',
       ''mdi:memory'', ''measurement'', ''{{ value | round(1) }}''),
      (''gpu_utilization'', ''GPU Utilization'', '''', ''%'',
       ''mdi:chip'', ''measurement'', ''''),
      (''temperature'', ''GPU Temperature'', ''temperature'', [CHR 0xC2, CHR 0xB0, CHR ''C''],
       ''mdi:thermometer'', ''measurement'', '''')]"

text \<open>
  The loop of \<open>RegisterGPUSensors\<close>: the first failing sensor ends it with the wrapped
  error. The messages handed to \<open>Publish\<close> so far are returned with the error.
\<close>

fun registerEach ::
  "client \<Rightarrow> Config \<Rightarrow> string \<Rightarrow> string \<Rightarrow> DeviceInfo \<Rightarrow> sensor list
     \<Rightarrow> message list \<times> error option" where
  "registerEach client cfg deviceID deviceName deviceInfo [] = ([], None)"
| "registerEach client cfg deviceID deviceName deviceInfo
       ((key, name, deviceClass, unit, icon, stateClass, template) # rest) =
     (case registerSensor client cfg deviceID deviceName key name deviceClass unit icon
             stateClass template deviceInfo of
        (msg, Some err) \<Rightarrow> ([msg], Some (RegisterSensorError key err))
      | (msg, None) \<Rightarrow>
          (case registerEach client cfg deviceID deviceName deviceInfo rest of
             (msgs, r) \<Rightarrow> (msg # msgs, r)))"

definition RegisterGPUSensors ::
  "client \<Rightarrow> Config \<Rightarrow> (string \<Rightarrow> string) \<Rightarrow> (string \<Rightarrow> string) \<Rightarrow> GPUDevice \<Rightarrow> string
     \<Rightarrow> message list \<times> error option" where
  "RegisterGPUSensors client cfg uniLower uniUpper device hostname =
     (let deviceID = GetDeviceID uniLower device;
          deviceName = GetDeviceDisplayName uniUpper device hostname;
          deviceInfo = \<lparr>Identifiers = [deviceID, UUID device], InfoName = deviceName,
                         Model = Name device, Manufacturer = ''NVIDIA'',
                         SwVersion = ''NVML''\<rparr>
      in registerEach client cfg deviceID deviceName deviceInfo sensors)"

section \<open>The sampling scheduler (package main)\<close>

text \<open>
  A \<open>time.Time\<close> is a count of nanoseconds since the zero Time, the initial value of
  \<open>lastMonitorTime\<close>. A \<open>time.Duration\<close> is an int64 of nanoseconds: \<open>time.Since\<close>
  saturates at its bounds and the product with \<open>time.Second\<close> wraps around. The
  division \<open>cfg.PollingPeriod/2\<close> is Go's integer division, which truncates.
\<close>

definition maxDuration :: int where
  "maxDuration = 2 ^ 63 - 1"

definition minDuration :: int where
  "minDuration = - (2 ^ 63)"

definition Since :: "int \<Rightarrow> int \<Rightarrow> int" where
  "Since now t =
     (let d = now - t
      in if maxDuration < d then maxDuration else if d < minDuration then minDuration else d)"

definition wrap64 :: "int \<Rightarrow> int" where
  "wrap64 x = (x + 2 ^ 63) mod 2 ^ 64 - 2 ^ 63"

definition quo :: "int \<Rightarrow> int \<Rightarrow> int" where
  "quo a b = sgn a * sgn b * (\<bar>a\<bar> div \<bar>b\<bar>)"

definition Second :: int where
  "Second = 1000000000"

record monitor =
  isMonitoring :: bool
  lastMonitorTime :: int

datatype tick = SkippedInProgress | SkippedTooSoon | Started

text \<open>
  \<open>monitorGPUs\<close> in three parts: the guards up to \<open>isMonitoring = true\<close>, the task
  started for each device, and the deferred function that ends the cycle. \<open>now\<close> is
  the clock read by \<open>time.Since\<close>, \<open>finished\<close> the one read by the deferred function,
  and \<open>timedOut gpu\<close> says whether the query of \<open>gpu\<close> ran into its timeout.
\<close>

definition monitorGPUs_enter :: "Config \<Rightarrow> int \<Rightarrow> monitor \<Rightarrow> tick \<times> monitor" where
  "monitorGPUs_enter cfg now st =
     (if isMonitoring st then (SkippedInProgress, st)
      else if Since now (lastMonitorTime st) < wrap64 (quo (PollingPeriod cfg) 2 * Second)
      then (SkippedTooSoon, st)
      else (Started, st\<lparr>isMonitoring := True\<rparr>))"

definition monitorGPUs_exit :: "int \<Rightarrow> monitor \<Rightarrow> monitor" where
  "monitorGPUs_exit finished st = st\<lparr>isMonitoring := False, lastMonitorTime := finished\<rparr>"

definition monitorTask ::
  "client \<Rightarrow> Config \<Rightarrow> (string \<Rightarrow> string) \<Rightarrow> (GPUDevice \<Rightarrow> bool) \<Rightarrow> GPUDevice
     \<Rightarrow> (string \<times> string \<times> publish_result) list" where
  "monitorTask client cfg uni timedOut gpu =
     (case GetGPUMetrics (timedOut gpu) gpu of
        (metrics, Some err) \<Rightarrow> []
      | (metrics, None) \<Rightarrow> publishMetrics client cfg uni gpu metrics)"

definition monitorGPUs ::
  "client \<Rightarrow> Config \<Rightarrow> (string \<Rightarrow> string) \<Rightarrow> (GPUDevice \<Rightarrow> bool) \<Rightarrow> GPUDevice list
     \<Rightarrow> int \<Rightarrow> int \<Rightarrow> monitor
     \<Rightarrow> (tick \<times> (string \<times> string \<times> publish_result) list list) \<times> monitor" where
  "monitorGPUs client cfg uni timedOut gpus now finished st =
     (case monitorGPUs_enter cfg now st of
        (Started, st') \<Rightarrow>
          ((Started, map (monitorTask client cfg uni timedOut) gpus),
           monitorGPUs_exit finished st')
      | (skipped, st') \<Rightarrow> ((skipped, []), st'))"

text \<open>
  Cycles in progress. The program holds \<open>monitoringMutex\<close> from the guards to the end
  of the deferred function and calls \<open>monitorGPUs\<close> from one loop, so there a tick never
  meets a running cycle. The runs below drop that restriction: a tick may arrive at any
  moment, also while a cycle runs, and \<open>Finished\<close> ends a running cycle. They include
  every run of the program; \<open>running\<close> counts the cycles begun and not yet ended.
\<close>

record system =
  vars :: monitor
  running :: nat

datatype event = Tick int | Finished int

definition initial :: system where
  "initial = \<lparr>vars = \<lparr>isMonitoring = False, lastMonitorTime = 0\<rparr>, running = 0\<rparr>"

fun step :: "Config \<Rightarrow> system \<Rightarrow> event \<Rightarrow> system" where
  "step cfg s (Tick now) =
     (case monitorGPUs_enter cfg now (vars s) of
        (Started, v) \<Rightarrow> \<lparr>vars = v, running = Suc (running s)\<rparr>
      | (skipped, v) \<Rightarrow> s\<lparr>vars := v\<rparr>)"
| "step cfg s (Finished now) =
     (if 0 < running s
      then \<lparr>vars = monitorGPUs_exit now (vars s), running = running s - 1\<rparr>
      else s)"

definition run :: "Config \<Rightarrow> event list \<Rightarrow> system" where
  "run cfg evs = foldl (step cfg) initial evs"

section \<open>Sample values\<close>

definition sample_handle :: nvml_Device where
  "sample_handle = \<lparr>GetPowerUsage = (SUCCESS, 120000), GetPerformanceState = (SUCCESS, 2),
     GetMemoryInfo = (SUCCESS, 1024, 4096), GetUtilizationRates = (SUCCESS, 37, 12),
     GetTemperature = (SUCCESS, 61)\<rparr>"

definition sample_gpu :: GPUDevice where
  "sample_gpu = \<lparr>Index = 0, Handle = sample_handle, Name = ''NVIDIA GeForce RTX 3080'',
     PCIBusID = ''00000000:04:00.0'', Memory = 10737418240,
     UUID = ''GPU-1a2b3c4d-5e6f-7a8b-9c0d-1e2f3a4b5c6d''\<rparr>"

definition sample_cfg :: Config where
  "sample_cfg = \<lparr>Hostname = ''SERVER1'', MQTTHost = ''localhost'', MQTTPort = 1883,
     MQTTUsername = '''', MQTTPassword = '''', MQTTLWTEnable = True, MQTTRetain = True,
     PollingPeriod = 30\<rparr>"

definition acknowledged :: client where
  "acknowledged msg = True"

definition power_draw_refused :: client where
  "power_draw_refused msg =
     (topic msg \<noteq> ''homeassistant/sensor/nvml-gpu/00_04_00_0_gpu1a2b3_power_draw/config'')"

definition in_time :: "GPUDevice \<Rightarrow> bool" where
  "in_time gpu = False"

definition no_utilization_gpu :: GPUDevice where
  "no_utilization_gpu =
     sample_gpu\<lparr>Handle := sample_handle\<lparr>GetUtilizationRates := (ERROR_NOT_SUPPORTED, 0, 0)\<rparr>\<rparr>"

definition no_memory_info_gpu :: GPUDevice where
  "no_memory_info_gpu =
     sample_gpu\<lparr>Handle := sample_handle\<lparr>GetMemoryInfo := (ERROR_OTHER 999, 0, 0)\<rparr>\<rparr>"

definition twin_gpu :: GPUDevice where
  "twin_gpu = sample_gpu\<lparr>UUID := ''GPU-1a2b3c4d-0000-1111-2222-333344445555''\<rparr>"

definition other_gpu :: GPUDevice where
  "other_gpu = sample_gpu\<lparr>UUID := ''GPU-9f8e7d6c-5e6f-7a8b-9c0d-1e2f3a4b5c6d''\<rparr>"

definition dotted_gpu :: GPUDevice where
  "dotted_gpu = sample_gpu\<lparr>UUID := ''ab:cd.ef''\<rparr>"

definition mixed_case_gpu :: GPUDevice where
  "mixed_case_gpu = sample_gpu\<lparr>Name := ''Nvidia GeForce RTX 3080''\<rparr>"

definition plain_name_gpu :: GPUDevice where
  "plain_name_gpu = sample_gpu\<lparr>Name := ''Tesla T4''\<rparr>"

definition odd_period_cfg :: Config where
  "odd_period_cfg = sample_cfg\<lparr>PollingPeriod := 5\<rparr>"

definition idle_since_100s :: monitor where
  "idle_since_100s = \<lparr>isMonitoring = False, lastMonitorTime = 100000000000\<rparr>"

section \<open>Facts about the string functions\<close>

lemma char_of_nat_eq: "char_of (n::nat) = c \<longleftrightarrow> n mod 256 = of_char c"
  by (simp add: char_of_eq_iff take_bit_eq_mod)

lemma isASCII_iff: "isASCII s \<longleftrightarrow> (\<forall>c\<in>set s. (of_char c :: nat) < 128)"
  by (simp add: isASCII_def list_all_iff)

lemma isASCII_append: "isASCII (xs @ ys) \<longleftrightarrow> isASCII xs \<and> isASCII ys"
  by (auto simp: isASCII_iff)

lemma isASCII_subset: "isASCII s \<Longrightarrow> set t \<subseteq> set s \<Longrightarrow> isASCII t"
  by (auto simp: isASCII_iff)

lemma Split_not_Nil: "Split s sep \<noteq> []"
  by (induction s) (auto split: list.splits)

lemma set_Split: "p \<in> set (Split s sep) \<Longrightarrow> set p \<subseteq> set s"
proof (induction s arbitrary: p)
  case Nil
  then show ?case by simp
next
  case (Cons c cs)
  show ?case
  proof (cases "c = sep")
    case True
    with Cons show ?thesis by auto
  next
    case False
    obtain q qs where q: "Split cs sep = q # qs"
      using Split_not_Nil by (cases "Split cs sep") auto
    with False Cons.prems have "p = c # q \<or> p \<in> set qs" by auto
    with q Cons.IH show ?thesis by fastforce
  qed
qed

lemma length_Split: "length (Split s sep) = Suc (count_list s sep)"
  by (induction s) (auto split: list.splits simp: Split_not_Nil)

lemma set_GetShortPCIBusID: "set (GetShortPCIBusID s) \<subseteq> set s \<union> {CHR '':''}"
proof (cases "3 \<le> length (Split s CHR '':'')")
  case False
  then show ?thesis by (auto simp: GetShortPCIBusID_def)
next
  case True
  let ?parts = "Split s CHR '':''"
  have part: "x \<in> set s" if "i < 3" and "x \<in> set (?parts ! i)" for i x
  proof -
    from True that(1) have "?parts ! i \<in> set ?parts" by simp
    with that(2) show ?thesis using set_Split by blast
  qed
  have dropped: "x \<in> set s" if "x \<in> set (drop n (?parts ! 0))" for n x
    using that part [of 0 x] by (auto dest: in_set_dropD)
  show ?thesis
    using True part [of 0] part [of 1] part [of 2] dropped
    by (auto simp: GetShortPCIBusID_def Let_def)
qed

lemma set_Replace:
  "set (Replace s old new) = (set s - {old}) \<union> (if old \<in> set s then set new else {})"
  by (induction s) (auto simp: Replace_def)

lemma lowerByte_not_upper: "\<not> isUpperByte (lowerByte c)"
  by (auto simp: lowerByte_def isUpperByte_def)

lemma lowerByte_eq_other:
  "\<not> isLowerByte x \<Longrightarrow> \<not> isUpperByte x \<Longrightarrow> lowerByte c = x \<longleftrightarrow> c = x"
  by (auto simp: lowerByte_def isUpperByte_def isLowerByte_def char_of_nat_eq)

lemma set_bus_part:
  "set (Replace (Replace (GetShortPCIBusID b) CHR '':'' ''_'') CHR ''.'' ''_'')
     \<subseteq> (set b \<union> {CHR ''_''}) - {CHR '':'', CHR ''.''}"
  using set_GetShortPCIBusID [of b] by (auto simp: set_Replace split: if_splits)

lemma GetDeviceID_ascii:
  assumes "isASCII (PCIBusID d)" "isASCII (UUID d)"
  shows "GetDeviceID uni d =
           map lowerByte (Replace (Replace (GetShortPCIBusID (PCIBusID d)) CHR '':'' ''_'')
                             CHR ''.'' ''_'')
           @ ''_'' @ map lowerByte (take 8 (Replace (UUID d) CHR ''-'' ''''))"
proof -
  let ?b = "Replace (Replace (GetShortPCIBusID (PCIBusID d)) CHR '':'' ''_'') CHR ''.'' ''_''"
  let ?u = "Replace (UUID d) CHR ''-'' ''''"
  have b: "isASCII ?b"
    using assms(1) set_bus_part [of "PCIBusID d"] by (auto simp: isASCII_iff)
  have "set (take 8 ?u) \<subseteq> set (UUID d)"
    using set_take_subset [of 8 ?u] by (auto simp: set_Replace split: if_splits)
  then have u: "isASCII (take 8 ?u)"
    using assms(2) isASCII_subset by blast
  have eq: "(if 8 < length ?u then take 8 ?u else ?u) = take 8 ?u"
    by simp
  have "isASCII (?b @ ''_'' @ take 8 ?u)"
    using b u by (simp add: isASCII_append) (simp add: isASCII_def)
  then have "ToLower uni (?b @ ''_'' @ take 8 ?u)
               = map lowerByte ?b @ ''_'' @ map lowerByte (take 8 ?u)"
    by (simp add: ToLower_def lowerByte_def isUpperByte_def)
  then show ?thesis
    unfolding GetDeviceID_def Let_def eq .
qed

lemma upper_not_member: "list_all (\<lambda>c. \<not> isUpperByte c) (map lowerByte s)"
  by (simp add: list_all_iff lowerByte_not_upper)

lemma member_map_lowerByte:
  assumes "\<not> isLowerByte x" and "\<not> isUpperByte x"
  shows "x \<in> set (map lowerByte s) \<longleftrightarrow> x \<in> set s"
proof
  assume "x \<in> set (map lowerByte s)"
  then obtain c where c: "c \<in> set s" "lowerByte c = x" by auto
  with assms have "c = x" by (simp add: lowerByte_eq_other)
  with c show "x \<in> set s" by simp
next
  assume x: "x \<in> set s"
  from assms have "lowerByte x = x" by (simp add: lowerByte_eq_other)
  with x show "x \<in> set (map lowerByte s)" by force
qed

lemma Replace_append: "Replace (xs @ ys) old new = Replace xs old new @ Replace ys old new"
  by (simp add: Replace_def)

lemma sample_gpu_short_id: "GetDeviceID id sample_gpu = ''00_04_00_0_gpu1a2b3''"
  by (simp add: sample_gpu_def GetDeviceID_def GetShortPCIBusID_def Replace_def ToLower_def
      isASCII_def lowerByte_def isUpperByte_def char_of_nat_eq)

lemma sample_gpu_ascii: "isASCII (PCIBusID sample_gpu)" "isASCII (UUID sample_gpu)"
  by (simp_all add: sample_gpu_def isASCII_def)

section \<open>Identity of a device\<close>

text \<open>
  C10. A bus location with fewer than three pieces between colons is returned by
  \<open>GetShortPCIBusID\<close> as it is.
\<close>

theorem GetShortPCIBusID_malformed:
  "length (Split pciBusID CHR '':'') < 3 \<Longrightarrow> GetShortPCIBusID pciBusID = pciBusID"
  by (simp add: GetShortPCIBusID_def)

theorem GetShortPCIBusID_malformed_witness:
  "length (Split ''04:00.0'' CHR '':'') < 3 \<and> GetShortPCIBusID ''04:00.0'' = ''04:00.0''"
proof -
  have few: "length (Split ''04:00.0'' CHR '':'') < 3" by simp
  from few GetShortPCIBusID_malformed [OF few] show ?thesis by simp
qed

text \<open>
  The scenario of C1 as the claim words it fails: the eight characters appended to the
  bus part are the first eight of the identifier without its hyphens, and those start
  with the letters \<open>GPU\<close> of the tag.
\<close>

theorem scenario_short_id_counterexample:
  "PCIBusID sample_gpu = ''00000000:04:00.0''
   \<and> HasPrefix (UUID sample_gpu) ''GPU-1a2b3c4d-''
   \<and> \<not> HasPrefix (GetDeviceID id sample_gpu) ''00_04_00_0_1a2b3c4d''"
  unfolding sample_gpu_short_id by (simp add: sample_gpu_def HasPrefix_def)

text \<open>
  C1, amended. For a device at bus location \<open>00000000:04:00.0\<close> whose identifier begins
  \<open>GPU-1a2b3c4d-\<close>, the short-id is \<open>00_04_00_0_gpu1a2b3\<close>. With hostname \<open>SERVER1\<close> the
  display name is \<open>SERVER1 00:04:00.0 - NVIDIA\<close>, the model name, and the memory in GiB
  rounded to a whole number, followed by \<open>GB\<close>: the model name is the rest of the device
  name when that name begins with \<open>NVIDIA \<close> spelled so, and the device name itself when
  it does not begin with the prefix in any letter case. A name that carries the prefix
  in another letter case is not covered here (see C9).
\<close>

theorem end_to_end_scenario:
  assumes "PCIBusID d = ''00000000:04:00.0''" and "UUID d = ''GPU-1a2b3c4d-'' @ rest"
  shows "GetDeviceID uni d = ''00_04_00_0_gpu1a2b3''
       \<and> (HasPrefix (ToUpper uni (Name d)) ''NVIDIA '' \<and> HasPrefix (Name d) ''NVIDIA ''
            \<longrightarrow> GetDeviceDisplayName uni d ''SERVER1''
                = ''SERVER1 00:04:00.0 - NVIDIA '' @ drop 7 (Name d) @ '' ''
                  @ decimal (roundHalfEven (float64_of_uint64 (unat (Memory d))) (2 ^ 30))
                  @ ''GB'')
       \<and> (\<not> HasPrefix (ToUpper uni (Name d)) ''NVIDIA ''
            \<longrightarrow> GetDeviceDisplayName uni d ''SERVER1''
                = ''SERVER1 00:04:00.0 - NVIDIA '' @ Name d @ '' ''
                  @ decimal (roundHalfEven (float64_of_uint64 (unat (Memory d))) (2 ^ 30))
                  @ ''GB'')"
proof -
  have short: "GetShortPCIBusID (PCIBusID d) = ''00:04:00.0''"
    by (simp add: assms(1) GetShortPCIBusID_def)
  have "Replace (UUID d) CHR ''-'' '''' = ''GPU1a2b3c4d'' @ Replace rest CHR ''-'' ''''"
    unfolding assms(2) Replace_append by (simp add: Replace_def)
  then have suffix:
    "(if 8 < length (Replace (UUID d) CHR ''-'' '''') then take 8 (Replace (UUID d) CHR ''-'' '''')
      else Replace (UUID d) CHR ''-'' '''') = ''GPU1a2b3''"
    by simp
  have short_id: "GetDeviceID uni d = ''00_04_00_0_gpu1a2b3''"
    unfolding GetDeviceID_def Let_def short suffix
    by (simp add: Replace_def ToLower_def isASCII_def lowerByte_def isUpperByte_def char_of_nat_eq)
  have trim: "TrimPrefix (Name d) ''NVIDIA '' = drop 7 (Name d)"
    if "HasPrefix (Name d) ''NVIDIA ''"
    using that by (simp add: TrimPrefix_def eval_nat_numeral)
  have exact: "GetDeviceDisplayName uni d ''SERVER1''
                = ''SERVER1 00:04:00.0 - NVIDIA '' @ drop 7 (Name d) @ '' ''
                  @ decimal (roundHalfEven (float64_of_uint64 (unat (Memory d))) (2 ^ 30))
                  @ ''GB''"
    if "HasPrefix (ToUpper uni (Name d)) ''NVIDIA '' \<and> HasPrefix (Name d) ''NVIDIA ''"
    using that unfolding GetDeviceDisplayName_def Let_def short
    by (simp add: Sprintf_f0_def trim)
  have plain: "GetDeviceDisplayName uni d ''SERVER1''
                = ''SERVER1 00:04:00.0 - NVIDIA '' @ Name d @ '' ''
                  @ decimal (roundHalfEven (float64_of_uint64 (unat (Memory d))) (2 ^ 30))
                  @ ''GB''"
    if "\<not> HasPrefix (ToUpper uni (Name d)) ''NVIDIA ''"
    using that unfolding GetDeviceDisplayName_def Let_def short
    by (simp add: Sprintf_f0_def)
  from short_id exact plain show ?thesis by blast
qed

theorem end_to_end_scenario_witness:
  "PCIBusID sample_gpu = ''00000000:04:00.0''
   \<and> UUID sample_gpu = ''GPU-1a2b3c4d-'' @ ''5e6f-7a8b-9c0d-1e2f3a4b5c6d''
   \<and> GetDeviceID id sample_gpu = ''00_04_00_0_gpu1a2b3''
   \<and> Name sample_gpu = ''NVIDIA GeForce RTX 3080''
   \<and> GetDeviceDisplayName id sample_gpu ''SERVER1''
       = ''SERVER1 00:04:00.0 - NVIDIA GeForce RTX 3080 10GB''
   \<and> Name plain_name_gpu = ''Tesla T4''
   \<and> GetDeviceDisplayName id plain_name_gpu ''SERVER1''
       = ''SERVER1 00:04:00.0 - NVIDIA Tesla T4 10GB''"
proof -
  have bus: "PCIBusID sample_gpu = ''00000000:04:00.0''"
    and uuid: "UUID sample_gpu = ''GPU-1a2b3c4d-'' @ ''5e6f-7a8b-9c0d-1e2f3a4b5c6d''"
    and name: "Name sample_gpu = ''NVIDIA GeForce RTX 3080''"
    by (simp_all add: sample_gpu_def)
  have bus': "PCIBusID plain_name_gpu = ''00000000:04:00.0''"
    and uuid': "UUID plain_name_gpu = ''GPU-1a2b3c4d-'' @ ''5e6f-7a8b-9c0d-1e2f3a4b5c6d''"
    and name': "Name plain_name_gpu = ''Tesla T4''"
    by (simp_all add: plain_name_gpu_def sample_gpu_def)
  have prefixed: "HasPrefix (ToUpper id (Name sample_gpu)) ''NVIDIA ''
      \<and> HasPrefix (Name sample_gpu) ''NVIDIA ''"
    unfolding name
    by (simp add: ToUpper_def isASCII_def upperByte_def isLowerByte_def HasPrefix_def
        char_of_nat_eq)
  have unprefixed: "\<not> HasPrefix (ToUpper id (Name plain_name_gpu)) ''NVIDIA ''"
    unfolding name'
    by (simp add: ToUpper_def isASCII_def upperByte_def isLowerByte_def HasPrefix_def
        char_of_nat_eq)
  have gb: "decimal (roundHalfEven (float64_of_uint64 (unat (Memory sample_gpu))) (2 ^ 30))
              = ''10''"
    by (simp add: sample_gpu_def float64_of_uint64_def roundHalfEven_def bitlen.simps
        decimal.simps char_of_nat_eq)
  have gb': "decimal (roundHalfEven (float64_of_uint64 (unat (Memory plain_name_gpu))) (2 ^ 30))
              = ''10''"
    using gb by (simp add: plain_name_gpu_def)
  from end_to_end_scenario [OF bus uuid, of id] prefixed
  have first: "GetDeviceID id sample_gpu = ''00_04_00_0_gpu1a2b3''"
    and second: "GetDeviceDisplayName id sample_gpu ''SERVER1''
       = ''SERVER1 00:04:00.0 - NVIDIA GeForce RTX 3080 10GB''"
    unfolding gb name by simp_all
  from end_to_end_scenario [OF bus' uuid', of id] unprefixed
  have third: "GetDeviceDisplayName id plain_name_gpu ''SERVER1''
       = ''SERVER1 00:04:00.0 - NVIDIA Tesla T4 10GB''"
    unfolding gb' name' by simp
  from bus uuid name name' first second third show ?thesis by simp
qed

text \<open>
  C7 as worded fails: two identifiers that agree on their first eight characters
  (hyphens removed) give one short-id on the same bus location.
\<close>

theorem short_id_collision_counterexample:
  "PCIBusID sample_gpu = PCIBusID twin_gpu
   \<and> UUID sample_gpu \<noteq> UUID twin_gpu
   \<and> GetDeviceID id sample_gpu = GetDeviceID id twin_gpu"
proof -
  have "GetDeviceID id twin_gpu = ''00_04_00_0_gpu1a2b3''"
    by (simp add: twin_gpu_def sample_gpu_def GetDeviceID_def GetShortPCIBusID_def Replace_def
        ToLower_def isASCII_def lowerByte_def isUpperByte_def char_of_nat_eq)
  then show ?thesis
    unfolding sample_gpu_short_id by (simp add: twin_gpu_def sample_gpu_def)
qed

text \<open>
  C7, amended. Two devices with the same bus location, all strings ASCII, have different
  short-ids exactly when the first eight characters of their identifiers, hyphens
  removed and letters lowered, differ.
\<close>

theorem GetDeviceID_differ_iff:
  assumes "PCIBusID a = PCIBusID b" and "isASCII (PCIBusID a)"
    and "isASCII (UUID a)" and "isASCII (UUID b)"
  shows "GetDeviceID uni a \<noteq> GetDeviceID uni b
     \<longleftrightarrow> map lowerByte (take 8 (Replace (UUID a) CHR ''-'' ''''))
           \<noteq> map lowerByte (take 8 (Replace (UUID b) CHR ''-'' ''''))"
  using assms by (simp add: GetDeviceID_ascii)

theorem GetDeviceID_differ_iff_witness:
  "PCIBusID sample_gpu = PCIBusID other_gpu
   \<and> isASCII (PCIBusID sample_gpu) \<and> isASCII (UUID sample_gpu) \<and> isASCII (UUID other_gpu)
   \<and> GetDeviceID id sample_gpu \<noteq> GetDeviceID id other_gpu"
proof -
  have bus: "PCIBusID sample_gpu = PCIBusID other_gpu"
    by (simp add: other_gpu_def)
  have other: "isASCII (UUID other_gpu)"
    by (simp add: other_gpu_def isASCII_def)
  have "map lowerByte (take 8 (Replace (UUID sample_gpu) CHR ''-'' ''''))
          \<noteq> map lowerByte (take 8 (Replace (UUID other_gpu) CHR ''-'' ''''))"
    by (simp add: sample_gpu_def other_gpu_def Replace_def lowerByte_def isUpperByte_def
        char_of_nat_eq)
  with GetDeviceID_differ_iff [OF bus sample_gpu_ascii other, of id]
  have "GetDeviceID id sample_gpu \<noteq> GetDeviceID id other_gpu" by simp
  with bus sample_gpu_ascii other show ?thesis by simp
qed

text \<open>
  C8 as worded fails: a colon or a dot among the first eight characters of the
  identifier stays in the short-id.
\<close>

theorem short_id_punctuation_counterexample:
  "CHR '':'' \<in> set (GetDeviceID id dotted_gpu) \<and> CHR ''.'' \<in> set (GetDeviceID id dotted_gpu)"
  by (simp add: dotted_gpu_def sample_gpu_def GetDeviceID_def GetShortPCIBusID_def Replace_def
      ToLower_def isASCII_def lowerByte_def isUpperByte_def char_of_nat_eq)

text \<open>
  C8, amended. \<open>GetDeviceID\<close> is a function of the device value. For a device whose bus
  location and identifier are ASCII, the short-id has no upper-case letter, and it has
  a colon (a dot) exactly when one is among the first eight characters of the
  identifier without its hyphens; the part made from the bus location has neither.
\<close>

theorem GetDeviceID_shape:
  assumes "isASCII (PCIBusID d)" and "isASCII (UUID d)"
  shows "(d' = d \<longrightarrow> GetDeviceID uni d' = GetDeviceID uni d)
       \<and> list_all (\<lambda>c. \<not> isUpperByte c) (GetDeviceID uni d)
       \<and> (CHR '':'' \<in> set (GetDeviceID uni d)
            \<longleftrightarrow> CHR '':'' \<in> set (take 8 (Replace (UUID d) CHR ''-'' '''')))
       \<and> (CHR ''.'' \<in> set (GetDeviceID uni d)
            \<longleftrightarrow> CHR ''.'' \<in> set (take 8 (Replace (UUID d) CHR ''-'' '''')))"
proof -
  let ?b = "Replace (Replace (GetShortPCIBusID (PCIBusID d)) CHR '':'' ''_'') CHR ''.'' ''_''"
  let ?u = "take 8 (Replace (UUID d) CHR ''-'' '''')"
  have id: "GetDeviceID uni d = map lowerByte ?b @ ''_'' @ map lowerByte ?u"
    using assms by (rule GetDeviceID_ascii)
  have nb: "CHR '':'' \<notin> set ?b" "CHR ''.'' \<notin> set ?b"
    using set_bus_part [of "PCIBusID d"] by auto
  have colon: "CHR '':'' \<in> set (map lowerByte s) \<longleftrightarrow> CHR '':'' \<in> set s" for s
    by (rule member_map_lowerByte) (simp_all add: isLowerByte_def isUpperByte_def)
  have dot: "CHR ''.'' \<in> set (map lowerByte s) \<longleftrightarrow> CHR ''.'' \<in> set s" for s
    by (rule member_map_lowerByte) (simp_all add: isLowerByte_def isUpperByte_def)
  have low: "list_all (\<lambda>c. \<not> isUpperByte c) (GetDeviceID uni d)"
    unfolding id using upper_not_member [of ?b] upper_not_member [of ?u]
    by (simp add: isUpperByte_def)
  have c1: "CHR '':'' \<in> set (GetDeviceID uni d) \<longleftrightarrow> CHR '':'' \<in> set ?u"
    unfolding id using nb(1) colon [of ?b] colon [of ?u] by simp
  have c2: "CHR ''.'' \<in> set (GetDeviceID uni d) \<longleftrightarrow> CHR ''.'' \<in> set ?u"
    unfolding id using nb(2) dot [of ?b] dot [of ?u] by simp
  from low c1 c2 show ?thesis by blast
qed

theorem GetDeviceID_shape_witness:
  "isASCII (PCIBusID sample_gpu) \<and> isASCII (UUID sample_gpu)
   \<and> list_all (\<lambda>c. \<not> isUpperByte c) (GetDeviceID id sample_gpu)
   \<and> CHR '':'' \<notin> set (GetDeviceID id sample_gpu)
   \<and> CHR ''.'' \<notin> set (GetDeviceID id sample_gpu)"
proof -
  have "CHR '':'' \<notin> set (take 8 (Replace (UUID sample_gpu) CHR ''-'' ''''))"
    and "CHR ''.'' \<notin> set (take 8 (Replace (UUID sample_gpu) CHR ''-'' ''''))"
    by (simp_all add: sample_gpu_def Replace_def)
  with GetDeviceID_shape [OF sample_gpu_ascii, of sample_gpu id] sample_gpu_ascii
  show ?thesis by simp
qed

text \<open>
  C9. A device name that carries the vendor prefix in another letter case passes the
  test for the prefix, which compares the upper-cased name, but \<open>TrimPrefix\<close> removes
  nothing from it: the display name then holds the vendor twice.
\<close>

theorem display_name_keeps_mixed_case_prefix:
  "HasPrefix (ToUpper id (Name mixed_case_gpu)) ''NVIDIA ''
   \<and> GetDeviceDisplayName id mixed_case_gpu ''SERVER1''
       = ''SERVER1 00:04:00.0 - NVIDIA Nvidia GeForce RTX 3080 10GB''"
  by (simp add: mixed_case_gpu_def sample_gpu_def GetDeviceDisplayName_def GetShortPCIBusID_def
      ToUpper_def isASCII_def upperByte_def isLowerByte_def HasPrefix_def TrimPrefix_def
      Sprintf_f0_def float64_of_uint64_def roundHalfEven_def bitlen.simps decimal.simps
      char_of_nat_eq)

section \<open>Registration of the sensors\<close>

lemma registerSensor_eq:
  "registerSensor client cfg deviceID deviceName sensorKey sensorName deviceClass unit
          icon stateClass template deviceInfo
     = (fst (registerSensor acknowledged cfg deviceID deviceName sensorKey sensorName deviceClass
          unit icon stateClass template deviceInfo),
        if client (fst (registerSensor acknowledged cfg deviceID deviceName sensorKey sensorName
                          deviceClass unit icon stateClass template deviceInfo))
        then None else Some PublishConfigError)"
  by (simp add: registerSensor_def Let_def acknowledged_def)

lemma acknowledged_always: "acknowledged msg"
  by (simp add: acknowledged_def)

lemma registerEach_Cons:
  "registerEach client cfg deviceID deviceName deviceInfo
       ((key, name, deviceClass, unit, icon, stateClass, template) # rest)
     = (let msg = fst (registerSensor acknowledged cfg deviceID deviceName key name deviceClass
                         unit icon stateClass template deviceInfo)
        in if client msg
           then (msg # fst (registerEach client cfg deviceID deviceName deviceInfo rest),
                 snd (registerEach client cfg deviceID deviceName deviceInfo rest))
           else ([msg], Some (RegisterSensorError key PublishConfigError)))"
  by (simp add: registerSensor_eq [of client] Let_def split: prod.splits)

lemma registerEach_Cons_acknowledged:
  "registerEach acknowledged cfg deviceID deviceName deviceInfo
       ((key, name, deviceClass, unit, icon, stateClass, template) # rest)
     = (fst (registerSensor acknowledged cfg deviceID deviceName key name deviceClass
               unit icon stateClass template deviceInfo)
          # fst (registerEach acknowledged cfg deviceID deviceName deviceInfo rest),
        snd (registerEach acknowledged cfg deviceID deviceName deviceInfo rest))"
  unfolding registerEach_Cons by (simp add: acknowledged_always)

lemma registerEach_attempts:
  "fst (registerEach client cfg deviceID deviceName deviceInfo ss)
     = takeWhile client (fst (registerEach acknowledged cfg deviceID deviceName deviceInfo ss))
       @ take 1 (dropWhile client
                   (fst (registerEach acknowledged cfg deviceID deviceName deviceInfo ss)))"
proof (induction ss)
  case Nil
  then show ?case by simp
next
  case (Cons s ss)
  obtain key name deviceClass unit icon stateClass template
    where s: "s = (key, name, deviceClass, unit, icon, stateClass, template)"
    by (cases s) auto
  show ?case
    unfolding s registerEach_Cons [of client] registerEach_Cons_acknowledged
    using Cons.IH by (simp add: Let_def)
qed

lemma registerEach_error:
  "snd (registerEach client cfg deviceID deviceName deviceInfo ss) = None
     \<longleftrightarrow> list_all client (fst (registerEach acknowledged cfg deviceID deviceName deviceInfo ss))"
proof (induction ss)
  case Nil
  then show ?case by simp
next
  case (Cons s ss)
  obtain key name deviceClass unit icon stateClass template
    where s: "s = (key, name, deviceClass, unit, icon, stateClass, template)"
    by (cases s) auto
  show ?case
    unfolding s registerEach_Cons [of client] registerEach_Cons_acknowledged
    using Cons.IH by (simp add: Let_def)
qed

lemma registerEach_state_topics:
  "map (\<lambda>msg. case body msg of ConfigJSON c \<Rightarrow> StateTopic c | _ \<Rightarrow> [])
       (fst (registerEach acknowledged cfg deviceID deviceName deviceInfo ss))
     = map (\<lambda>s. ''homeassistant/sensor/nvml-gpu/'' @ deviceID @ ''_'' @ fst s @ ''/state'') ss"
proof (induction ss)
  case Nil
  then show ?case by simp
next
  case (Cons s ss)
  obtain key name deviceClass unit icon stateClass template
    where s: "s = (key, name, deviceClass, unit, icon, stateClass, template)"
    by (cases s) auto
  have "(case body (fst (registerSensor acknowledged cfg deviceID deviceName key name deviceClass
                         unit icon stateClass template deviceInfo)) of
           ConfigJSON c \<Rightarrow> StateTopic c | _ \<Rightarrow> [])
          = ''homeassistant/sensor/nvml-gpu/'' @ deviceID @ ''_'' @ key @ ''/state''"
    by (simp add: registerSensor_def Let_def)
  with Cons.IH show ?case
    unfolding s registerEach_Cons_acknowledged
    by (simp add: Let_def)
qed

lemma registerEach_topics:
  "map topic (fst (registerEach acknowledged cfg deviceID deviceName deviceInfo ss))
     = map (\<lambda>s. ''homeassistant/sensor/nvml-gpu/'' @ deviceID @ ''_'' @ fst s @ ''/config'') ss"
proof (induction ss)
  case Nil
  then show ?case by simp
next
  case (Cons s ss)
  obtain key name deviceClass unit icon stateClass template
    where s: "s = (key, name, deviceClass, unit, icon, stateClass, template)"
    by (cases s) auto
  have "topic (fst (registerSensor acknowledged cfg deviceID deviceName key name deviceClass
                         unit icon stateClass template deviceInfo))
          = ''homeassistant/sensor/nvml-gpu/'' @ deviceID @ ''_'' @ key @ ''/config''"
    by (simp add: registerSensor_def Let_def)
  with Cons.IH show ?case
    unfolding s registerEach_Cons_acknowledged
    by (simp add: Let_def)
qed

lemma attempts_prefix:
  "takeWhile P xs @ take 1 (dropWhile P xs)
     = take (length (takeWhile P xs @ take 1 (dropWhile P xs))) xs"
  by (induction xs) auto

text \<open>
  C2 as worded fails: when the publication of the first sensor's record is refused,
  \<open>RegisterGPUSensors\<close> returns the error at once and hands no record of the other four
  sensors to the client.
\<close>

theorem RegisterGPUSensors_abort_counterexample:
  "map topic (fst (RegisterGPUSensors power_draw_refused sample_cfg id id sample_gpu ''SERVER1''))
     = [''homeassistant/sensor/nvml-gpu/00_04_00_0_gpu1a2b3_power_draw/config'']
   \<and> snd (RegisterGPUSensors power_draw_refused sample_cfg id id sample_gpu ''SERVER1'')
       = Some (RegisterSensorError ''power_draw'' PublishConfigError)"
  unfolding RegisterGPUSensors_def Let_def sensors_def registerEach_Cons [of power_draw_refused]
    sample_gpu_short_id
  by (simp add: power_draw_refused_def registerSensor_def Let_def)

text \<open>
  C2, amended. \<open>RegisterGPUSensors\<close> registers the five sensors in the order power_draw,
  performance_level, memory_usage, gpu_utilization, temperature, up to and including
  the first one whose publication fails; the sensors after that one are not attempted
  in the call, which returns the error. It returns no error exactly when all five
  publications succeed.
\<close>

theorem RegisterGPUSensors_stops_at_first_failure:
  "fst (RegisterGPUSensors client cfg uniLower uniUpper device hostname)
     = takeWhile client (fst (RegisterGPUSensors acknowledged cfg uniLower uniUpper device hostname))
       @ take 1 (dropWhile client
                   (fst (RegisterGPUSensors acknowledged cfg uniLower uniUpper device hostname)))
   \<and> (snd (RegisterGPUSensors client cfg uniLower uniUpper device hostname) = None
        \<longleftrightarrow> list_all client
              (fst (RegisterGPUSensors acknowledged cfg uniLower uniUpper device hostname)))
   \<and> map topic (fst (RegisterGPUSensors acknowledged cfg uniLower uniUpper device hostname))
       = map (\<lambda>key. ''homeassistant/sensor/nvml-gpu/'' @ GetDeviceID uniLower device @ ''_'' @ key
                      @ ''/config'')
           [''power_draw'', ''performance_level'', ''memory_usage'', ''gpu_utilization'',
            ''temperature'']"
  unfolding RegisterGPUSensors_def Let_def
proof (intro conjI)
  show "map topic (fst (registerEach acknowledged cfg (GetDeviceID uniLower device)
          (GetDeviceDisplayName uniUpper device hostname)
          \<lparr>Identifiers = [GetDeviceID uniLower device, UUID device],
             InfoName = GetDeviceDisplayName uniUpper device hostname, Model = Name device,
             Manufacturer = ''NVIDIA'', SwVersion = ''NVML''\<rparr> sensors))
      = map (\<lambda>key. ''homeassistant/sensor/nvml-gpu/'' @ GetDeviceID uniLower device @ ''_'' @ key
                      @ ''/config'')
           [''power_draw'', ''performance_level'', ''memory_usage'', ''gpu_utilization'',
            ''temperature'']"
    unfolding registerEach_topics by (simp add: sensors_def)
qed (rule registerEach_attempts registerEach_error)+

theorem RegisterGPUSensors_stops_at_first_failure_witness:
  "map topic (fst (RegisterGPUSensors acknowledged sample_cfg id id sample_gpu ''SERVER1''))
     = [''homeassistant/sensor/nvml-gpu/00_04_00_0_gpu1a2b3_power_draw/config'',
        ''homeassistant/sensor/nvml-gpu/00_04_00_0_gpu1a2b3_performance_level/config'',
        ''homeassistant/sensor/nvml-gpu/00_04_00_0_gpu1a2b3_memory_usage/config'',
        ''homeassistant/sensor/nvml-gpu/00_04_00_0_gpu1a2b3_gpu_utilization/config'',
        ''homeassistant/sensor/nvml-gpu/00_04_00_0_gpu1a2b3_temperature/config'']
   \<and> snd (RegisterGPUSensors acknowledged sample_cfg id id sample_gpu ''SERVER1'') = None"
proof -
  have all: "list_all acknowledged xs" for xs
    by (simp add: list_all_iff acknowledged_always)
  from RegisterGPUSensors_stops_at_first_failure
         [of acknowledged sample_cfg id id sample_gpu "''SERVER1''"]
  show ?thesis
    unfolding sample_gpu_short_id by (simp add: all)
qed

section \<open>Sampling and publishing\<close>

lemma getGPUMetricsInternal_success:
  assumes "snd (getGPUMetricsInternal gpu) = None"
  shows "fst (GetMemoryInfo (Handle gpu)) = SUCCESS"
    and "fst (getGPUMetricsInternal gpu) =
      \<lparr>PowerDraw = (if fst (GetPowerUsage (Handle gpu)) = SUCCESS
                     then float64_div (snd (GetPowerUsage (Handle gpu))) 1000 else Finite 0),
       PerformanceLevel = (if fst (GetPerformanceState (Handle gpu)) = SUCCESS
                     then ''P'' @ decimal_int (snd (GetPerformanceState (Handle gpu))) else ''''),
       MemoryUsage = float64_mul (float64_div (fst (snd (GetMemoryInfo (Handle gpu))))
                                    (snd (snd (GetMemoryInfo (Handle gpu))))) 100,
       GPUUtilization = (if fst (GetUtilizationRates (Handle gpu)) = SUCCESS
                     then int (fst (snd (GetUtilizationRates (Handle gpu)))) else 0),
       MemoryUtilization = (if fst (GetUtilizationRates (Handle gpu)) = SUCCESS
                     then int (snd (snd (GetUtilizationRates (Handle gpu)))) else 0),
       Temperature = (if fst (GetTemperature (Handle gpu)) = SUCCESS
                     then int (snd (GetTemperature (Handle gpu))) else 0)\<rparr>"
proof -
  obtain r1 power where q1: "GetPowerUsage (Handle gpu) = (r1, power)"
    by (cases "GetPowerUsage (Handle gpu)")
  obtain r2 perf where q2: "GetPerformanceState (Handle gpu) = (r2, perf)"
    by (cases "GetPerformanceState (Handle gpu)")
  obtain r3 used tot where q3: "GetMemoryInfo (Handle gpu) = (r3, used, tot)"
    by (cases "GetMemoryInfo (Handle gpu)")
  obtain r4 g m where q4: "GetUtilizationRates (Handle gpu) = (r4, g, m)"
    by (cases "GetUtilizationRates (Handle gpu)")
  obtain r5 t where q5: "GetTemperature (Handle gpu) = (r5, t)"
    by (cases "GetTemperature (Handle gpu)")
  note qs = q1 q2 q3 q4 q5
  from assms show "fst (GetMemoryInfo (Handle gpu)) = SUCCESS"
    by (cases r3) (simp_all add: getGPUMetricsInternal_def Let_def qs split: if_splits)
  from assms show "fst (getGPUMetricsInternal gpu) =
      \<lparr>PowerDraw = (if fst (GetPowerUsage (Handle gpu)) = SUCCESS
                     then float64_div (snd (GetPowerUsage (Handle gpu))) 1000 else Finite 0),
       PerformanceLevel = (if fst (GetPerformanceState (Handle gpu)) = SUCCESS
                     then ''P'' @ decimal_int (snd (GetPerformanceState (Handle gpu))) else ''''),
       MemoryUsage = float64_mul (float64_div (fst (snd (GetMemoryInfo (Handle gpu))))
                                    (snd (snd (GetMemoryInfo (Handle gpu))))) 100,
       GPUUtilization = (if fst (GetUtilizationRates (Handle gpu)) = SUCCESS
                     then int (fst (snd (GetUtilizationRates (Handle gpu)))) else 0),
       MemoryUtilization = (if fst (GetUtilizationRates (Handle gpu)) = SUCCESS
                     then int (snd (snd (GetUtilizationRates (Handle gpu)))) else 0),
       Temperature = (if fst (GetTemperature (Handle gpu)) = SUCCESS
                     then int (snd (GetTemperature (Handle gpu))) else 0)\<rparr>"
    by (cases r1; cases r2; cases r3; cases r4; cases r5)
       (simp_all add: getGPUMetricsInternal_def Let_def qs zeroMetrics_def)
qed

lemma getGPUMetricsInternal_memory_failure:
  assumes "fst (GetMemoryInfo (Handle gpu)) \<noteq> SUCCESS"
  shows "snd (getGPUMetricsInternal gpu) \<noteq> None"
  using assms getGPUMetricsInternal_success(1) by blast

lemma GetGPUMetrics_success:
  assumes "snd (GetGPUMetrics timedOut gpu) = None"
  shows "GetGPUMetrics timedOut gpu = (fst (getGPUMetricsInternal gpu), None)"
    and "snd (getGPUMetricsInternal gpu) = None"
  using assms by (simp_all add: GetGPUMetrics_def split: if_splits) (metis prod.collapse)

lemma monitorTask_success:
  assumes "snd (GetGPUMetrics (timedOut gpu) gpu) = None"
  shows "monitorTask client cfg uni timedOut gpu
           = publishMetrics client cfg uni gpu (fst (getGPUMetricsInternal gpu))"
  using GetGPUMetrics_success(1) [OF assms] by (simp add: monitorTask_def)

lemma monitorTask_failure:
  assumes "snd (GetGPUMetrics (timedOut gpu) gpu) \<noteq> None"
  shows "monitorTask client cfg uni timedOut gpu = []"
  using assms by (cases "GetGPUMetrics (timedOut gpu) gpu") (auto simp: monitorTask_def)

lemma Marshal_memory:
  "Marshal (VFloat (float64_mul (float64_div used tot) 100))
     = (if tot = 0 then Inl UnsupportedValueError else Inr (JNumber (of_nat used / of_nat tot * 100)))"
  by (simp add: Marshal_def float64_div_def float64_mul_def)

lemma published_Cons:
  "published ((sensor, t, r) # rs)
     = (case r of MarshalFailed \<Rightarrow> [] | Sent msg ok \<Rightarrow> [msg]) @ published rs"
  by (simp add: published_def)

lemma published_Nil: "published [] = []"
  by (simp add: published_def)

lemma published_topics_general:
  assumes "\<forall>(sensor, t, r) \<in> set rs. \<forall>msg ok. r = Sent msg ok \<longrightarrow> topic msg = t"
  shows "map topic (published rs)
     = map (\<lambda>(sensor, t, r). t) (filter (\<lambda>(sensor, t, r). r \<noteq> MarshalFailed) rs)"
  using assms
proof (induction rs)
  case Nil
  then show ?case by (simp add: published_def)
next
  case (Cons x rs)
  obtain sensor t r where x: "x = (sensor, t, r)" by (cases x)
  from Cons.prems have "map topic (published rs)
     = map (\<lambda>(sensor, t, r). t) (filter (\<lambda>(sensor, t, r). r \<noteq> MarshalFailed) rs)"
    by (intro Cons.IH) simp
  moreover have "published (x # rs)
      = (case r of MarshalFailed \<Rightarrow> [] | Sent msg ok \<Rightarrow> [msg]) @ published rs"
    by (simp add: x published_def)
  moreover from Cons.prems have "r = Sent msg ok \<longrightarrow> topic msg = t" for msg ok
    by (simp add: x)
  ultimately show ?case
    by (cases r) (simp_all add: x)
qed

lemma publishMetrics_body:
  "(case Marshal v of
      Inl err \<Rightarrow> (sensor, t, MarshalFailed)
    | Inr payload \<Rightarrow> (sensor, t, Sent \<lparr>topic = t, qos = q, retained = rt,
                                         body = StateJSON payload\<rparr> (ok payload)))
     = (sensor, t, (case Marshal v of Inl err \<Rightarrow> MarshalFailed
          | Inr payload \<Rightarrow> Sent \<lparr>topic = t, qos = q, retained = rt,
                                  body = StateJSON payload\<rparr> (ok payload)))"
  by (cases "Marshal v") simp_all

lemma publishMetrics_sent_topic:
  "\<forall>(sensor, t, r) \<in> set (publishMetrics client cfg uni gpu metrics).
      \<forall>msg ok. r = Sent msg ok \<longrightarrow> topic msg = t"
  unfolding publishMetrics_def Let_def
  by (simp add: publishMetrics_body split: sum.split)

lemma published_topics:
  "map topic (published (publishMetrics client cfg uni gpu metrics))
     = map (\<lambda>(sensor, t, r). t)
         (filter (\<lambda>(sensor, t, r). r \<noteq> MarshalFailed) (publishMetrics client cfg uni gpu metrics))"
  using publishMetrics_sent_topic by (rule published_topics_general)

text \<open>
  C3 as worded fails: a device that answers the utilization query with
  \<open>ERROR_NOT_SUPPORTED\<close> is sampled with success, and its gpu_utilization topic is
  published with the value 0.
\<close>

theorem unsupported_metric_counterexample:
  "snd (GetGPUMetrics (in_time no_utilization_gpu) no_utilization_gpu) = None
   \<and> fst (GetUtilizationRates (Handle no_utilization_gpu)) = ERROR_NOT_SUPPORTED
   \<and> \<lparr>topic = ''homeassistant/sensor/nvml-gpu/00_04_00_0_gpu1a2b3_gpu_utilization/state'',
        qos = 1, retained = True, body = StateJSON (JInteger 0)\<rparr>
       \<in> set (published (monitorTask acknowledged sample_cfg id in_time no_utilization_gpu))"
proof -
  have "GetDeviceID id no_utilization_gpu = GetDeviceID id sample_gpu"
    by (simp add: GetDeviceID_def no_utilization_gpu_def)
  then have id: "GetDeviceID id no_utilization_gpu = ''00_04_00_0_gpu1a2b3''"
    by (simp only: sample_gpu_short_id)
  have sampled: "GetGPUMetrics (in_time no_utilization_gpu) no_utilization_gpu
      = (\<lparr>PowerDraw = Finite 120, PerformanceLevel = ''P2'', MemoryUsage = Finite 25,
           GPUUtilization = 0, MemoryUtilization = 0, Temperature = 61\<rparr>, None)"
    by (simp add: GetGPUMetrics_def in_time_def getGPUMetricsInternal_def Let_def
        no_utilization_gpu_def sample_handle_def zeroMetrics_def float64_div_def float64_mul_def
        decimal_int_def decimal.simps char_of_nat_eq)
  have unsupported: "fst (GetUtilizationRates (Handle no_utilization_gpu)) = ERROR_NOT_SUPPORTED"
    by (simp add: no_utilization_gpu_def sample_handle_def)
  have "\<lparr>topic = ''homeassistant/sensor/nvml-gpu/00_04_00_0_gpu1a2b3_gpu_utilization/state'',
        qos = 1, retained = True, body = StateJSON (JInteger 0)\<rparr>
       \<in> set (published (monitorTask acknowledged sample_cfg id in_time no_utilization_gpu))"
    unfolding monitorTask_def sampled
    by (simp add: publishMetrics_def Let_def id Marshal_def published_def sample_cfg_def
        acknowledged_def)
  with sampled unsupported show ?thesis by simp
qed

text \<open>
  C3, amended. For every device sample that succeeds as a whole, all five metrics go
  through the publisher, and each is handed to the client except memory_usage when the
  total memory read is 0 (its value is then not a number and cannot be marshalled). A
  metric the device reported as unsupported is not omitted: it is published with the
  zero value of its field, 0 for power_draw, gpu_utilization and temperature and the
  empty string for performance_level.
\<close>

theorem unsupported_metric_published_as_zero:
  assumes "snd (GetGPUMetrics (timedOut gpu) gpu) = None"
  shows "map (\<lambda>(sensor, topic, r). (sensor, r \<noteq> MarshalFailed))
             (monitorTask client cfg uni timedOut gpu)
           = [(''power_draw'', True), (''performance_level'', True),
              (''memory_usage'', snd (snd (GetMemoryInfo (Handle gpu))) \<noteq> 0),
              (''gpu_utilization'', True), (''temperature'', True)]
       \<and> (fst (GetPowerUsage (Handle gpu)) = ERROR_NOT_SUPPORTED \<longrightarrow>
            \<lparr>topic = ''homeassistant/sensor/nvml-gpu/'' @ GetDeviceID uni gpu @ ''_''
                       @ ''power_draw'' @ ''/state'',
              qos = 1, retained = MQTTRetain cfg, body = StateJSON (JNumber 0)\<rparr>
              \<in> set (published (monitorTask client cfg uni timedOut gpu)))
       \<and> (fst (GetPerformanceState (Handle gpu)) = ERROR_NOT_SUPPORTED \<longrightarrow>
            \<lparr>topic = ''homeassistant/sensor/nvml-gpu/'' @ GetDeviceID uni gpu @ ''_''
                       @ ''performance_level'' @ ''/state'',
              qos = 1, retained = MQTTRetain cfg, body = StateJSON (JString '''')\<rparr>
              \<in> set (published (monitorTask client cfg uni timedOut gpu)))
       \<and> (fst (GetUtilizationRates (Handle gpu)) = ERROR_NOT_SUPPORTED \<longrightarrow>
            \<lparr>topic = ''homeassistant/sensor/nvml-gpu/'' @ GetDeviceID uni gpu @ ''_''
                       @ ''gpu_utilization'' @ ''/state'',
              qos = 1, retained = MQTTRetain cfg, body = StateJSON (JInteger 0)\<rparr>
              \<in> set (published (monitorTask client cfg uni timedOut gpu)))
       \<and> (fst (GetTemperature (Handle gpu)) = ERROR_NOT_SUPPORTED \<longrightarrow>
            \<lparr>topic = ''homeassistant/sensor/nvml-gpu/'' @ GetDeviceID uni gpu @ ''_''
                       @ ''temperature'' @ ''/state'',
              qos = 1, retained = MQTTRetain cfg, body = StateJSON (JInteger 0)\<rparr>
              \<in> set (published (monitorTask client cfg uni timedOut gpu)))"
proof -
  let ?m = "fst (getGPUMetricsInternal gpu)"
  have ok: "snd (getGPUMetricsInternal gpu) = None"
    using assms by (rule GetGPUMetrics_success(2))
  have task: "monitorTask client cfg uni timedOut gpu = publishMetrics client cfg uni gpu ?m"
    using assms by (rule monitorTask_success)
  note m = getGPUMetricsInternal_success(2) [OF ok]
  have power: "Marshal (VFloat (PowerDraw ?m)) =
      Inr (JNumber (if fst (GetPowerUsage (Handle gpu)) = SUCCESS
                    then of_nat (snd (GetPowerUsage (Handle gpu))) / 1000 else 0))"
    unfolding m by (simp add: Marshal_def float64_div_def)
  have memory: "Marshal (VFloat (MemoryUsage ?m)) =
      (if snd (snd (GetMemoryInfo (Handle gpu))) = 0 then Inl UnsupportedValueError
       else Inr (JNumber (of_nat (fst (snd (GetMemoryInfo (Handle gpu))))
                           / of_nat (snd (snd (GetMemoryInfo (Handle gpu)))) * 100)))"
    unfolding m by (simp add: Marshal_memory)
  have level: "PerformanceLevel ?m = (if fst (GetPerformanceState (Handle gpu)) = SUCCESS
      then ''P'' @ decimal_int (snd (GetPerformanceState (Handle gpu))) else '''')"
    unfolding m by simp
  have util: "GPUUtilization ?m = (if fst (GetUtilizationRates (Handle gpu)) = SUCCESS
      then int (fst (snd (GetUtilizationRates (Handle gpu)))) else 0)"
    unfolding m by simp
  have temp: "Temperature ?m = (if fst (GetTemperature (Handle gpu)) = SUCCESS
      then int (snd (GetTemperature (Handle gpu))) else 0)"
    unfolding m by simp
  have others: "Marshal (VString s) = Inr (JString s)" "Marshal (VInt i) = Inr (JInteger i)"
    for s i
    by (simp_all add: Marshal_def)
  have all: "map (\<lambda>(sensor, topic, r). (sensor, r \<noteq> MarshalFailed))
             (monitorTask client cfg uni timedOut gpu)
           = [(''power_draw'', True), (''performance_level'', True),
              (''memory_usage'', snd (snd (GetMemoryInfo (Handle gpu))) \<noteq> 0),
              (''gpu_utilization'', True), (''temperature'', True)]"
    unfolding task publishMetrics_def Let_def
    by (simp add: power memory others)
  have pub: "published (monitorTask client cfg uni timedOut gpu) =
      \<lparr>topic = ''homeassistant/sensor/nvml-gpu/'' @ GetDeviceID uni gpu @ ''_''
                       @ ''power_draw'' @ ''/state'',
        qos = 1, retained = MQTTRetain cfg,
        body = StateJSON (JNumber (if fst (GetPowerUsage (Handle gpu)) = SUCCESS
                    then of_nat (snd (GetPowerUsage (Handle gpu))) / 1000 else 0))\<rparr>
      # \<lparr>topic = ''homeassistant/sensor/nvml-gpu/'' @ GetDeviceID uni gpu @ ''_''
                       @ ''performance_level'' @ ''/state'',
        qos = 1, retained = MQTTRetain cfg,
        body = StateJSON (JString (PerformanceLevel ?m))\<rparr>
      # (if snd (snd (GetMemoryInfo (Handle gpu))) = 0 then []
         else [\<lparr>topic = ''homeassistant/sensor/nvml-gpu/'' @ GetDeviceID uni gpu @ ''_''
                       @ ''memory_usage'' @ ''/state'',
                 qos = 1, retained = MQTTRetain cfg,
                 body = StateJSON (JNumber (of_nat (fst (snd (GetMemoryInfo (Handle gpu))))
                           / of_nat (snd (snd (GetMemoryInfo (Handle gpu)))) * 100))\<rparr>])
      @ [\<lparr>topic = ''homeassistant/sensor/nvml-gpu/'' @ GetDeviceID uni gpu @ ''_''
                       @ ''gpu_utilization'' @ ''/state'',
          qos = 1, retained = MQTTRetain cfg,
          body = StateJSON (JInteger (GPUUtilization ?m))\<rparr>,
         \<lparr>topic = ''homeassistant/sensor/nvml-gpu/'' @ GetDeviceID uni gpu @ ''_''
                       @ ''temperature'' @ ''/state'',
          qos = 1, retained = MQTTRetain cfg,
          body = StateJSON (JInteger (Temperature ?m))\<rparr>]"
    unfolding task publishMetrics_def Let_def
    by (simp add: power memory others published_Cons published_Nil)
  have p1: "fst (GetPowerUsage (Handle gpu)) = ERROR_NOT_SUPPORTED \<longrightarrow>
            \<lparr>topic = ''homeassistant/sensor/nvml-gpu/'' @ GetDeviceID uni gpu @ ''_''
                       @ ''power_draw'' @ ''/state'',
              qos = 1, retained = MQTTRetain cfg, body = StateJSON (JNumber 0)\<rparr>
              \<in> set (published (monitorTask client cfg uni timedOut gpu))"
    unfolding pub by simp
  have p2: "fst (GetPerformanceState (Handle gpu)) = ERROR_NOT_SUPPORTED \<longrightarrow>
            \<lparr>topic = ''homeassistant/sensor/nvml-gpu/'' @ GetDeviceID uni gpu @ ''_''
                       @ ''performance_level'' @ ''/state'',
              qos = 1, retained = MQTTRetain cfg, body = StateJSON (JString '''')\<rparr>
              \<in> set (published (monitorTask client cfg uni timedOut gpu))"
    unfolding pub level by simp
  have p3: "fst (GetUtilizationRates (Handle gpu)) = ERROR_NOT_SUPPORTED \<longrightarrow>
            \<lparr>topic = ''homeassistant/sensor/nvml-gpu/'' @ GetDeviceID uni gpu @ ''_''
                       @ ''gpu_utilization'' @ ''/state'',
              qos = 1, retained = MQTTRetain cfg, body = StateJSON (JInteger 0)\<rparr>
              \<in> set (published (monitorTask client cfg uni timedOut gpu))"
    unfolding pub util by simp
  have p4: "fst (GetTemperature (Handle gpu)) = ERROR_NOT_SUPPORTED \<longrightarrow>
            \<lparr>topic = ''homeassistant/sensor/nvml-gpu/'' @ GetDeviceID uni gpu @ ''_''
                       @ ''temperature'' @ ''/state'',
              qos = 1, retained = MQTTRetain cfg, body = StateJSON (JInteger 0)\<rparr>
              \<in> set (published (monitorTask client cfg uni timedOut gpu))"
    unfolding pub temp by simp
  from all p1 p2 p3 p4 show ?thesis by (intro conjI)
qed

theorem unsupported_metric_published_as_zero_witness:
  "snd (GetGPUMetrics (in_time no_utilization_gpu) no_utilization_gpu) = None
   \<and> map (\<lambda>(sensor, topic, r). (sensor, r \<noteq> MarshalFailed))
         (monitorTask acknowledged sample_cfg id in_time no_utilization_gpu)
       = [(''power_draw'', True), (''performance_level'', True), (''memory_usage'', True),
          (''gpu_utilization'', True), (''temperature'', True)]"
proof -
  have sampled: "snd (GetGPUMetrics (in_time no_utilization_gpu) no_utilization_gpu) = None"
    by (simp add: GetGPUMetrics_def in_time_def getGPUMetricsInternal_def Let_def
        no_utilization_gpu_def sample_handle_def)
  have "snd (snd (GetMemoryInfo (Handle no_utilization_gpu))) \<noteq> 0"
    by (simp add: no_utilization_gpu_def sample_handle_def)
  with unsupported_metric_published_as_zero
         [where timedOut = in_time and gpu = no_utilization_gpu and client = acknowledged
            and cfg = sample_cfg and uni = id] sampled
  show ?thesis by simp
qed

text \<open>
  C5. When the memory-info query of a device does not succeed, the sample of the device
  fails and its task publishes nothing in that cycle.
\<close>

theorem memory_info_failure_publishes_nothing:
  assumes "fst (GetMemoryInfo (Handle gpu)) \<noteq> SUCCESS"
  shows "snd (GetGPUMetrics (timedOut gpu) gpu) \<noteq> None
       \<and> monitorTask client cfg uni timedOut gpu = []
       \<and> published (monitorTask client cfg uni timedOut gpu) = []"
proof -
  have "snd (getGPUMetricsInternal gpu) \<noteq> None"
    using assms by (rule getGPUMetricsInternal_memory_failure)
  then have failed: "snd (GetGPUMetrics (timedOut gpu) gpu) \<noteq> None"
    by (simp add: GetGPUMetrics_def)
  then have "monitorTask client cfg uni timedOut gpu = []"
    by (rule monitorTask_failure)
  with failed show ?thesis by (simp add: published_Nil)
qed

theorem memory_info_failure_publishes_nothing_witness:
  "fst (GetMemoryInfo (Handle no_memory_info_gpu)) \<noteq> SUCCESS
   \<and> snd (GetGPUMetrics (in_time no_memory_info_gpu) no_memory_info_gpu)
       = Some (MemoryInfoError (ERROR_OTHER 999))
   \<and> published (monitorTask acknowledged sample_cfg id in_time no_memory_info_gpu) = []"
proof -
  have failing: "fst (GetMemoryInfo (Handle no_memory_info_gpu)) \<noteq> SUCCESS"
    by (simp add: no_memory_info_gpu_def)
  have "snd (GetGPUMetrics (in_time no_memory_info_gpu) no_memory_info_gpu)
       = Some (MemoryInfoError (ERROR_OTHER 999))"
    by (simp add: GetGPUMetrics_def in_time_def getGPUMetricsInternal_def Let_def
        no_memory_info_gpu_def sample_handle_def)
  with memory_info_failure_publishes_nothing
         [where timedOut = in_time and gpu = no_memory_info_gpu and client = acknowledged
            and cfg = sample_cfg and uni = id] failing
  show ?thesis by (simp add: published_Nil)
qed

text \<open>
  C6. When every publication is acknowledged, \<open>RegisterGPUSensors\<close> hands the client five
  discovery documents, one per metric in the order of the keys, on the config topic of
  the metric and with the state topic of the metric (the short-id of the device and
  the key, between \<open>homeassistant/sensor/nvml-gpu/\<close> and \<open>/state\<close>) in its \<open>state_topic\<close>
  field; with any client, the documents it hands over are the first of these. \<open>publishMetrics\<close> goes through the same five keys
  with the same five topics, and the messages it hands to the client go to exactly
  these topics, one for every metric whose value can be marshalled (all but a
  power_draw or memory_usage that is not a finite number).
\<close>

theorem state_topic_round_trip:
  "map topic (fst (RegisterGPUSensors acknowledged cfg uniLower uniUpper gpu hostname))
     = map (\<lambda>key. ''homeassistant/sensor/nvml-gpu/'' @ GetDeviceID uniLower gpu @ ''_'' @ key
                    @ ''/config'')
         [''power_draw'', ''performance_level'', ''memory_usage'', ''gpu_utilization'',
          ''temperature'']
   \<and> map (\<lambda>msg. case body msg of ConfigJSON c \<Rightarrow> StateTopic c | _ \<Rightarrow> [])
         (fst (RegisterGPUSensors acknowledged cfg uniLower uniUpper gpu hostname))
     = map (\<lambda>key. ''homeassistant/sensor/nvml-gpu/'' @ GetDeviceID uniLower gpu @ ''_'' @ key
                    @ ''/state'')
         [''power_draw'', ''performance_level'', ''memory_usage'', ''gpu_utilization'',
          ''temperature'']
   \<and> map (\<lambda>msg. case body msg of ConfigJSON c \<Rightarrow> StateTopic c | _ \<Rightarrow> [])
         (fst (RegisterGPUSensors client cfg uniLower uniUpper gpu hostname))
     = take (length (fst (RegisterGPUSensors client cfg uniLower uniUpper gpu hostname)))
         (map (\<lambda>key. ''homeassistant/sensor/nvml-gpu/'' @ GetDeviceID uniLower gpu @ ''_'' @ key
                        @ ''/state'')
            [''power_draw'', ''performance_level'', ''memory_usage'', ''gpu_utilization'',
             ''temperature''])
   \<and> map (\<lambda>(sensor, topic, r). (sensor, topic))
         (publishMetrics client' cfg' uniLower gpu metrics)
     = map (\<lambda>key. (key, ''homeassistant/sensor/nvml-gpu/'' @ GetDeviceID uniLower gpu @ ''_''
                          @ key @ ''/state''))
         [''power_draw'', ''performance_level'', ''memory_usage'', ''gpu_utilization'',
          ''temperature'']
   \<and> map topic (published (publishMetrics client' cfg' uniLower gpu metrics))
     = map (\<lambda>key. ''homeassistant/sensor/nvml-gpu/'' @ GetDeviceID uniLower gpu @ ''_'' @ key
                    @ ''/state'')
         ((case PowerDraw metrics of Finite r \<Rightarrow> [''power_draw''] | _ \<Rightarrow> [])
          @ [''performance_level'']
          @ (case MemoryUsage metrics of Finite r \<Rightarrow> [''memory_usage''] | _ \<Rightarrow> [])
          @ [''gpu_utilization'', ''temperature''])"
proof -
  let ?id = "GetDeviceID uniLower gpu"
  let ?name = "GetDeviceDisplayName uniUpper gpu hostname"
  let ?info = "\<lparr>Identifiers = [?id, UUID gpu], InfoName = ?name, Model = Name gpu,
                 Manufacturer = ''NVIDIA'', SwVersion = ''NVML''\<rparr>"
  let ?all = "fst (registerEach acknowledged cfg ?id ?name ?info sensors)"
  let ?got = "fst (registerEach client cfg ?id ?name ?info sensors)"
  let ?field = "\<lambda>msg. case body msg of ConfigJSON c \<Rightarrow> StateTopic c | _ \<Rightarrow> []"
  let ?keys = "[''power_draw'', ''performance_level'', ''memory_usage'', ''gpu_utilization'',
        ''temperature'']"
  let ?topics = "map (\<lambda>key. ''homeassistant/sensor/nvml-gpu/'' @ ?id @ ''_'' @ key @ ''/state'')
       ?keys"
  have configs: "map topic ?all
      = map (\<lambda>key. ''homeassistant/sensor/nvml-gpu/'' @ ?id @ ''_'' @ key @ ''/config'') ?keys"
    unfolding registerEach_topics by (simp add: sensors_def)
  have all_fields: "map ?field ?all = ?topics"
    unfolding registerEach_state_topics by (simp add: sensors_def)
  have attempts: "?got = takeWhile client ?all @ take 1 (dropWhile client ?all)"
    by (rule registerEach_attempts)
  have got: "?got = take (length ?got) ?all"
    unfolding attempts by (rule attempts_prefix)
  have "map ?field ?got = map ?field (take (length ?got) ?all)"
    using got by (rule arg_cong)
  also have "\<dots> = take (length ?got) (map ?field ?all)"
    by (rule take_map [symmetric])
  also have "\<dots> = take (length ?got) ?topics"
    by (simp only: all_fields)
  finally have fields: "map ?field ?got = take (length ?got) ?topics" .
  have pubs: "map (\<lambda>(sensor, topic, r). (sensor, topic))
                (publishMetrics client' cfg' uniLower gpu metrics)
      = map (\<lambda>key. (key, ''homeassistant/sensor/nvml-gpu/'' @ ?id @ ''_'' @ key @ ''/state''))
          ?keys"
    by (simp add: publishMetrics_def Let_def split: sum.splits)
  have sent: "map topic (published (publishMetrics client' cfg' uniLower gpu metrics))
     = map (\<lambda>key. ''homeassistant/sensor/nvml-gpu/'' @ ?id @ ''_'' @ key @ ''/state'')
         ((case PowerDraw metrics of Finite r \<Rightarrow> [''power_draw''] | _ \<Rightarrow> [])
          @ [''performance_level'']
          @ (case MemoryUsage metrics of Finite r \<Rightarrow> [''memory_usage''] | _ \<Rightarrow> [])
          @ [''gpu_utilization'', ''temperature''])"
    by (cases "PowerDraw metrics"; cases "MemoryUsage metrics")
       (simp_all add: publishMetrics_def Let_def published_def Marshal_def)
  from configs all_fields fields pubs sent show ?thesis
    unfolding RegisterGPUSensors_def Let_def by (intro conjI)
qed

theorem state_topic_round_trip_witness:
  "map (\<lambda>msg. case body msg of ConfigJSON c \<Rightarrow> StateTopic c | _ \<Rightarrow> [])
         (fst (RegisterGPUSensors acknowledged sample_cfg id id sample_gpu ''SERVER1''))
     = [''homeassistant/sensor/nvml-gpu/00_04_00_0_gpu1a2b3_power_draw/state'',
        ''homeassistant/sensor/nvml-gpu/00_04_00_0_gpu1a2b3_performance_level/state'',
        ''homeassistant/sensor/nvml-gpu/00_04_00_0_gpu1a2b3_memory_usage/state'',
        ''homeassistant/sensor/nvml-gpu/00_04_00_0_gpu1a2b3_gpu_utilization/state'',
        ''homeassistant/sensor/nvml-gpu/00_04_00_0_gpu1a2b3_temperature/state'']
   \<and> map topic (published (publishMetrics acknowledged sample_cfg id sample_gpu zeroMetrics))
     = [''homeassistant/sensor/nvml-gpu/00_04_00_0_gpu1a2b3_power_draw/state'',
        ''homeassistant/sensor/nvml-gpu/00_04_00_0_gpu1a2b3_performance_level/state'',
        ''homeassistant/sensor/nvml-gpu/00_04_00_0_gpu1a2b3_memory_usage/state'',
        ''homeassistant/sensor/nvml-gpu/00_04_00_0_gpu1a2b3_gpu_utilization/state'',
        ''homeassistant/sensor/nvml-gpu/00_04_00_0_gpu1a2b3_temperature/state'']"
proof -
  have finite: "PowerDraw zeroMetrics = Finite 0" "MemoryUsage zeroMetrics = Finite 0"
    by (simp_all add: zeroMetrics_def)
  from state_topic_round_trip
         [of sample_cfg id id sample_gpu "''SERVER1''" acknowledged acknowledged sample_cfg
            zeroMetrics]
  show ?thesis
    unfolding sample_gpu_short_id finite by simp
qed

section \<open>The scheduler\<close>

lemma threshold_in_range:
  assumes "0 \<le> p" and "p < 2 ^ 34"
  shows "wrap64 (quo p 2 * Second) = (p div 2) * 1000000000"
proof -
  have q: "quo p 2 = p div 2"
    using assms(1) by (cases "p = 0") (simp_all add: quo_def)
  have "0 \<le> p div 2" and "p div 2 < 2 ^ 33"
    using assms by simp_all
  then have "0 \<le> p div 2 * 1000000000" and "p div 2 * 1000000000 < 2 ^ 63"
    by simp_all
  then show ?thesis
    unfolding q Second_def wrap64_def by (simp add: mod_pos_pos_trivial)
qed

lemma monitorGPUs_skips:
  assumes "isMonitoring st \<or> Since now (lastMonitorTime st) < wrap64 (quo (PollingPeriod cfg) 2 * Second)"
  shows "monitorGPUs client cfg uni timedOut gpus now finished st
     = ((if isMonitoring st then SkippedInProgress else SkippedTooSoon, []), st)"
  using assms by (auto simp: monitorGPUs_def monitorGPUs_enter_def)

lemma step_running:
  assumes "running s = (if isMonitoring (vars s) then 1 else 0)"
  shows "running (step cfg s e) = (if isMonitoring (vars (step cfg s e)) then 1 else 0)"
proof (cases e)
  case (Tick now)
  with assms show ?thesis
    by (simp add: monitorGPUs_enter_def split: if_splits)
next
  case (Finished now)
  with assms show ?thesis
    by (simp add: monitorGPUs_exit_def split: if_splits)
qed

lemma foldl_step_running:
  assumes "running s = (if isMonitoring (vars s) then 1 else 0)"
  shows "running (foldl (step cfg) s evs)
     = (if isMonitoring (vars (foldl (step cfg) s evs)) then 1 else 0)"
  using assms
proof (induction evs arbitrary: s)
  case Nil
  then show ?case by simp
next
  case (Cons e evs)
  from Cons.prems have "running (step cfg s e) = (if isMonitoring (vars (step cfg s e)) then 1 else 0)"
    by (rule step_running)
  then show ?case
    using Cons.IH [of "step cfg s e"] by simp
qed

lemma run_running: "running (run cfg evs) = (if isMonitoring (vars (run cfg evs)) then 1 else 0)"
  unfolding run_def by (rule foldl_step_running) (simp add: initial_def)

text \<open>
  C4 as worded fails for an odd polling period: with a period of 5 seconds the code's
  bound is \<open>5/2 = 2\<close> seconds, so a tick 2.2 seconds after the last cycle ended, less
  than half the period, starts a cycle.
\<close>

theorem tick_half_interval_counterexample:
  "\<not> isMonitoring idle_since_100s
   \<and> 2 * Since 102200000000 (lastMonitorTime idle_since_100s)
        < PollingPeriod odd_period_cfg * Second
   \<and> fst (fst (monitorGPUs acknowledged odd_period_cfg id in_time [sample_gpu]
                   102200000000 102300000000 idle_since_100s)) = Started
   \<and> snd (monitorGPUs acknowledged odd_period_cfg id in_time [sample_gpu]
                   102200000000 102300000000 idle_since_100s)
       = \<lparr>isMonitoring = False, lastMonitorTime = 102300000000\<rparr>"
  by (simp add: idle_since_100s_def odd_period_cfg_def sample_cfg_def Since_def maxDuration_def
      minDuration_def Second_def monitorGPUs_def monitorGPUs_enter_def monitorGPUs_exit_def
      wrap64_def quo_def)

text \<open>
  C4, amended. A tick that finds a cycle in progress, or for which the time passed
  since the last cycle ended is below the bound the code computes, starts no cycle,
  publishes nothing and leaves the scheduler's state as it was. The bound is
  \<open>PollingPeriod/2\<close> seconds in integer division: for a period of \<open>P\<close> seconds,
  \<open>0 \<le> P < 2^34\<close>, it is \<open>P div 2\<close> whole seconds. In every run of ticks and cycle
  ends at most one cycle is in progress, and one is in progress exactly when
  \<open>isMonitoring\<close> is set.
\<close>

theorem tick_guards:
  "(isMonitoring st
      \<or> Since now (lastMonitorTime st) < wrap64 (quo (PollingPeriod cfg) 2 * Second)
      \<longrightarrow> fst (fst (monitorGPUs client cfg uni timedOut gpus now finished st)) \<noteq> Started
          \<and> snd (fst (monitorGPUs client cfg uni timedOut gpus now finished st)) = []
          \<and> snd (monitorGPUs client cfg uni timedOut gpus now finished st) = st)
   \<and> (0 \<le> PollingPeriod cfg \<and> PollingPeriod cfg < 2 ^ 34
      \<longrightarrow> wrap64 (quo (PollingPeriod cfg) 2 * Second)
            = (PollingPeriod cfg div 2) * 1000000000)
   \<and> running (run cfg evs) \<le> 1
   \<and> (running (run cfg evs) = 1 \<longleftrightarrow> isMonitoring (vars (run cfg evs)))"
proof -
  have guards: "fst (fst (monitorGPUs client cfg uni timedOut gpus now finished st)) \<noteq> Started
              \<and> snd (fst (monitorGPUs client cfg uni timedOut gpus now finished st)) = []
              \<and> snd (monitorGPUs client cfg uni timedOut gpus now finished st) = st"
    if "isMonitoring st
          \<or> Since now (lastMonitorTime st) < wrap64 (quo (PollingPeriod cfg) 2 * Second)"
    using monitorGPUs_skips [OF that, of client uni timedOut gpus finished] by simp
  have bound: "wrap64 (quo (PollingPeriod cfg) 2 * Second)
                 = (PollingPeriod cfg div 2) * 1000000000"
    if "0 \<le> PollingPeriod cfg \<and> PollingPeriod cfg < 2 ^ 34"
    using that threshold_in_range [of "PollingPeriod cfg"] by blast
  from guards bound run_running [of cfg evs] show ?thesis by simp
qed

theorem tick_guards_witness:
  "wrap64 (quo (PollingPeriod sample_cfg) 2 * Second) = 15000000000
   \<and> Since 114900000000 (lastMonitorTime idle_since_100s) = 14900000000
   \<and> fst (fst (monitorGPUs acknowledged sample_cfg id in_time [sample_gpu]
                   114900000000 115000000000 idle_since_100s)) \<noteq> Started
   \<and> snd (fst (monitorGPUs acknowledged sample_cfg id in_time [sample_gpu]
                   114900000000 115000000000 idle_since_100s)) = []
   \<and> snd (monitorGPUs acknowledged sample_cfg id in_time [sample_gpu]
                   114900000000 115000000000 idle_since_100s) = idle_since_100s
   \<and> running (run sample_cfg [Tick 100000000000, Tick 100000000001, Finished 100000000002])
        \<le> 1"
proof -
  have period: "0 \<le> PollingPeriod sample_cfg \<and> PollingPeriod sample_cfg < 2 ^ 34"
    and half: "PollingPeriod sample_cfg div 2 * 1000000000 = 15000000000"
    by (simp_all add: sample_cfg_def)
  have since: "Since 114900000000 (lastMonitorTime idle_since_100s) = 14900000000"
    by (simp add: idle_since_100s_def Since_def maxDuration_def minDuration_def)
  from tick_guards [of idle_since_100s 114900000000 sample_cfg acknowledged id in_time
      "[sample_gpu]" 115000000000 "[Tick 100000000000, Tick 100000000001, Finished 100000000002]"]
    period
  have bound: "wrap64 (quo (PollingPeriod sample_cfg) 2 * Second) = 15000000000"
    and skip: "Since 114900000000 (lastMonitorTime idle_since_100s) < 15000000000
      \<longrightarrow> fst (fst (monitorGPUs acknowledged sample_cfg id in_time [sample_gpu]
                   114900000000 115000000000 idle_since_100s)) \<noteq> Started
          \<and> snd (fst (monitorGPUs acknowledged sample_cfg id in_time [sample_gpu]
                   114900000000 115000000000 idle_since_100s)) = []
          \<and> snd (monitorGPUs acknowledged sample_cfg id in_time [sample_gpu]
                   114900000000 115000000000 idle_since_100s) = idle_since_100s"
    and one: "running (run sample_cfg
                [Tick 100000000000, Tick 100000000001, Finished 100000000002]) \<le> 1"
    by (simp_all add: half)
  from bound skip one since show ?thesis by simp
qed

end
